theory Spec2Isabelle
  imports Complex_Main "HOL-Library.Multiset"
begin

section \<open>JavaScript numbers\<close>

text \<open>
  The server (\<^verbatim>\<open>server.js\<close>) and its store (\<^verbatim>\<open>db.js\<close>) are JavaScript: every number
  is an IEEE 754 double. A double is NaN, one of the two infinities, the negative zero,
  or a finite value \<open>Fin r\<close> (\<open>Fin 0\<close> is the positive zero). The result of an operation
  is the exact result rounded to the nearest double, ties to the even significand, and
  to an infinity beyond the largest double.
\<close>

datatype jsnum = NaN | PosInf | NegInf | NegZero | Fin rat

text \<open>
  The exponent of the binade of a magnitude, from \<open>-1022\<close> (where the subnormals lie) to
  \<open>1023\<close>: the greatest \<open>e\<close> of that range with \<open>2 powi e \<le> a\<close>, or \<open>-1022\<close>.
\<close>

fun exponent_from :: "nat \<Rightarrow> rat \<Rightarrow> int" where
  "exponent_from 0 a = - 1022"
| "exponent_from (Suc k) a =
     (if 2 powi (int (Suc k) - 1022) \<le> a then int (Suc k) - 1022 else exponent_from k a)"

definition exponent :: "rat \<Rightarrow> int" where
  "exponent a = exponent_from 2045 a"

definition round_even :: "rat \<Rightarrow> int" where
  "round_even x =
     (let f = \<lfloor>x\<rfloor>; d = x - of_int f
      in if d < 1 / 2 then f
         else if 1 / 2 < d then f + 1
         else if even f then f else f + 1)"

text \<open>
  The magnitude of the nearest double: a multiple of the unit in the last place of the
  binade, 53 bits of significand; \<open>None\<close> when it overflows.
\<close>

definition round_magnitude :: "rat \<Rightarrow> rat option" where
  "round_magnitude a =
     (let q = exponent a - 52;
          v = of_int (round_even (a / 2 powi q)) * 2 powi q
      in if 2 ^ 1024 \<le> v then None else Some v)"

definition round_signed :: "bool \<Rightarrow> rat \<Rightarrow> jsnum" where
  "round_signed neg a =
     (case round_magnitude a of
        None \<Rightarrow> if neg then NegInf else PosInf
      | Some v \<Rightarrow> if v = 0 then (if neg then NegZero else Fin 0)
                  else Fin (if neg then - v else v))"

definition fl :: "rat \<Rightarrow> jsnum" where
  "fl r = round_signed (r < 0) \<bar>r\<bar>"

fun negative :: "jsnum \<Rightarrow> bool" where
  "negative NegInf = True"
| "negative NegZero = True"
| "negative (Fin r) = (r < 0)"
| "negative n = False"

fun magnitude :: "jsnum \<Rightarrow> rat" where
  "magnitude (Fin r) = \<bar>r\<bar>"
| "magnitude n = 0"

fun is_infinity :: "jsnum \<Rightarrow> bool" where
  "is_infinity PosInf = True"
| "is_infinity NegInf = True"
| "is_infinity n = False"

fun is_zero :: "jsnum \<Rightarrow> bool" where
  "is_zero NegZero = True"
| "is_zero (Fin r) = (r = 0)"
| "is_zero n = False"

text \<open>\<^verbatim>\<open>x + y\<close> on two numbers.\<close>

fun num_add :: "jsnum \<Rightarrow> jsnum \<Rightarrow> jsnum" where
  "num_add NaN y = NaN"
| "num_add x NaN = NaN"
| "num_add PosInf NegInf = NaN"
| "num_add NegInf PosInf = NaN"
| "num_add PosInf y = PosInf"
| "num_add x PosInf = PosInf"
| "num_add NegInf y = NegInf"
| "num_add x NegInf = NegInf"
| "num_add NegZero NegZero = NegZero"
| "num_add NegZero (Fin b) = Fin b"
| "num_add (Fin a) NegZero = Fin a"
| "num_add (Fin a) (Fin b) = (if a + b = 0 then Fin 0 else fl (a + b))"

text \<open>\<^verbatim>\<open>x * y\<close> on two numbers: the sign of the result is the product of the signs.\<close>

fun num_mul :: "jsnum \<Rightarrow> jsnum \<Rightarrow> jsnum" where
  "num_mul NaN y = NaN"
| "num_mul x NaN = NaN"
| "num_mul x y =
     (if is_infinity x \<or> is_infinity y
      then (if is_zero x \<or> is_zero y then NaN
            else if negative x \<noteq> negative y then NegInf else PosInf)
      else round_signed (negative x \<noteq> negative y) (magnitude x * magnitude y))"

section \<open>JavaScript values\<close>

text \<open>
  The routes decide with truthiness (\<^verbatim>\<open>a || b\<close>, \<^verbatim>\<open>!x\<close>), with \<^verbatim>\<open>String(v)\<close> and with
  \<^verbatim>\<open>Number(v)\<close>. A string is a list of 8-bit code units. An object is the list of its
  own properties, the first binding of a name being the one that is read; the values are
  those of a parsed request (JSON, a query string, a form), so no property is a
  function.
\<close>

datatype jsval =
    Undefined
  | Null
  | Bool bool
  | Num jsnum
  | Str string
  | Arr "jsval list"
  | Obj "(string \<times> jsval) list"

datatype jserror = TypeError | URIError

datatype sqlval = SqlNull | SqlInt int | SqlReal jsnum | SqlText string

text \<open>
  The builtins whose results depend on number formatting, number parsing or percent
  coding are parameters of the model, as are the two conversions of SQLite between a
  number and its text:
  \<^item> \<open>decodeURIComponent\<close> gives \<open>None\<close> where the builtin throws \<^verbatim>\<open>URIError\<close>;
  \<^item> \<open>numberToString\<close> is \<^verbatim>\<open>String(n)\<close> on a number, \<open>stringToNumber\<close> is
    \<^verbatim>\<open>Number(s)\<close> on a string;
  \<^item> \<open>sqliteNumText\<close> is the text SQLite stores when an integer or a real is written
    to a TEXT column, \<open>sqliteTextNum\<close> the integer or real it stores when a well-formed
    numeric text is written to an INTEGER or REAL column (\<open>None\<close> when the text is not
    numeric).
\<close>

record runtime =
  decodeURIComponent :: "string \<Rightarrow> string option"
  encodeURIComponent :: "string \<Rightarrow> string"
  numberToString :: "jsnum \<Rightarrow> string"
  stringToNumber :: "string \<Rightarrow> jsnum"
  sqliteNumText :: "sqlval \<Rightarrow> string"
  sqliteTextNum :: "string \<Rightarrow> sqlval option"

text \<open>Truthiness: what \<^verbatim>\<open>if (v)\<close>, \<^verbatim>\<open>!v\<close>, \<^verbatim>\<open>Boolean(v)\<close> and \<^verbatim>\<open>||\<close> test.\<close>

fun truthy :: "jsval \<Rightarrow> bool" where
  "truthy Undefined = False"
| "truthy Null = False"
| "truthy (Bool b) = b"
| "truthy (Num n) = (n \<noteq> NaN \<and> \<not> is_zero n)"
| "truthy (Str s) = (s \<noteq> [])"
| "truthy (Arr xs) = True"
| "truthy (Obj kvs) = True"

text \<open>\<^verbatim>\<open>a || b\<close> where evaluating \<open>b\<close> cannot throw.\<close>

definition js_or :: "jsval \<Rightarrow> jsval \<Rightarrow> jsval" where
  "js_or a b = (if truthy a then a else b)"

fun join_with :: "string \<Rightarrow> string list \<Rightarrow> string" where
  "join_with sep [] = []"
| "join_with sep [x] = x"
| "join_with sep (x # y # ys) = x @ sep @ join_with sep (y # ys)"

text \<open>The results of a sequence of evaluations, or the first exception.\<close>

fun collect :: "(jserror + 'a) list \<Rightarrow> jserror + 'a list" where
  "collect [] = Inr []"
| "collect (Inl e # rs) = Inl e"
| "collect (Inr x # rs) = (case collect rs of Inl e \<Rightarrow> Inl e | Inr xs \<Rightarrow> Inr (x # xs))"

definition own :: "(string \<times> jsval) list \<Rightarrow> string \<Rightarrow> bool" where
  "own kvs name = (name \<in> set (map fst kvs))"

text \<open>
  \<^verbatim>\<open>String(v)\<close>. An array joins its elements with a comma, \<^verbatim>\<open>null\<close> and
  \<^verbatim>\<open>undefined\<close> elements giving the empty string. An object is converted by its
  \<^verbatim>\<open>toString\<close> method: the inherited one gives \<^verbatim>\<open>[object Object]\<close>; an own property
  of that name hides it and, not being a function, makes the conversion throw
  \<^verbatim>\<open>TypeError\<close> (the inherited \<^verbatim>\<open>valueOf\<close> returns the object, an own one is not a
  function).
\<close>

fun ToString :: "runtime \<Rightarrow> jsval \<Rightarrow> jserror + string" where
  "ToString rt Undefined = Inr ''undefined''"
| "ToString rt Null = Inr ''null''"
| "ToString rt (Bool b) = Inr (if b then ''true'' else ''false'')"
| "ToString rt (Num n) = Inr (numberToString rt n)"
| "ToString rt (Str s) = Inr s"
| "ToString rt (Arr xs) =
     (case collect (map (\<lambda>v. if v = Undefined \<or> v = Null then Inr [] else ToString rt v) xs) of
        Inl e \<Rightarrow> Inl e
      | Inr ss \<Rightarrow> Inr (join_with '','' ss))"
| "ToString rt (Obj kvs) =
     (if own kvs ''toString'' then Inl TypeError else Inr ''[object Object]'')"

text \<open>
  \<^verbatim>\<open>Number(v)\<close>. An array is converted through its string; an object through its
  \<^verbatim>\<open>valueOf\<close> and \<^verbatim>\<open>toString\<close>, which gives NaN, or \<^verbatim>\<open>TypeError\<close> when an own
  property hides \<^verbatim>\<open>toString\<close>.
\<close>

fun ToNumber :: "runtime \<Rightarrow> jsval \<Rightarrow> jserror + jsnum" where
  "ToNumber rt Undefined = Inr NaN"
| "ToNumber rt Null = Inr (Fin 0)"
| "ToNumber rt (Bool b) = Inr (Fin (if b then 1 else 0))"
| "ToNumber rt (Num n) = Inr n"
| "ToNumber rt (Str s) = Inr (stringToNumber rt s)"
| "ToNumber rt (Arr xs) =
     (case ToString rt (Arr xs) of Inl e \<Rightarrow> Inl e | Inr s \<Rightarrow> Inr (stringToNumber rt s))"
| "ToNumber rt (Obj kvs) = (if own kvs ''toString'' then Inl TypeError else Inr NaN)"

text \<open>
  Reading a property \<^verbatim>\<open>v.name\<close> for the names the program reads (\<^verbatim>\<open>qty\<close>,
  \<^verbatim>\<open>price\<close>, \<^verbatim>\<open>length\<close> and the fields of a request body), none of which is an
  array index or a method of a prototype. Reading a property of \<^verbatim>\<open>null\<close> or
  \<^verbatim>\<open>undefined\<close> throws \<^verbatim>\<open>TypeError\<close>.
\<close>

definition field :: "(string \<times> jsval) list \<Rightarrow> string \<Rightarrow> jsval" where
  "field kvs name = (case map_of kvs name of None \<Rightarrow> Undefined | Some v \<Rightarrow> v)"

fun js_get :: "jsval \<Rightarrow> string \<Rightarrow> jserror + jsval" where
  "js_get Undefined name = Inl TypeError"
| "js_get Null name = Inl TypeError"
| "js_get (Bool b) name = Inr Undefined"
| "js_get (Num n) name = Inr Undefined"
| "js_get (Str s) name =
     Inr (if name = ''length'' then Num (Fin (of_nat (length s))) else Undefined)"
| "js_get (Arr xs) name =
     Inr (if name = ''length'' then Num (Fin (of_nat (length xs))) else Undefined)"
| "js_get (Obj kvs) name = Inr (field kvs name)"
section \<open>The cookie parser\<close>

text \<open>\<^verbatim>\<open>s.split(c)\<close> for a one-character separator: never the empty list.\<close>

fun split_on :: "char \<Rightarrow> string \<Rightarrow> string list" where
  "split_on c [] = [[]]"
| "split_on c (x # xs) =
     (if x = c then [] # split_on c xs
      else (case split_on c xs of
              [] \<Rightarrow> [[x]]
            | p # ps \<Rightarrow> (x # p) # ps))"

text \<open>
  \<^verbatim>\<open>s.trim()\<close>: the white space and line terminators among the 8-bit code units are
  tab, line feed, vertical tab, form feed, carriage return, space and no-break space.
\<close>

definition js_space :: "char \<Rightarrow> bool" where
  "js_space c \<longleftrightarrow>
     c = CHR 0x09 \<or> c = CHR 0x0A \<or> c = CHR 0x0B \<or> c = CHR 0x0C \<or> c = CHR 0x0D
     \<or> c = CHR 0x20 \<or> c = CHR 0xA0"

definition trim :: "string \<Rightarrow> string" where
  "trim s = rev (dropWhile js_space (rev (dropWhile js_space s)))"

text \<open>
  \<^verbatim>\<open>parseCookies\<close> (server.js, lines 36-46). The object \<^verbatim>\<open>list\<close> is a map from names
  to strings, a later cookie of the same name replacing an earlier one;
  \<^verbatim>\<open>decodeURIComponent\<close> throwing aborts the whole call. \<^verbatim>\<open>parts.shift()\<close> is
  the first piece of the split and \<^verbatim>\<open>parts.join('=')\<close> joins the others.
\<close>

fun parse_each :: "runtime \<Rightarrow> string list \<Rightarrow> (string \<rightharpoonup> string) \<Rightarrow> jserror + (string \<rightharpoonup> string)" where
  "parse_each rt [] list = Inr list"
| "parse_each rt (cookie # rest) list =
     (case split_on CHR ''='' cookie of
        [] \<Rightarrow> Inl TypeError
      | first # parts \<Rightarrow>
          (let name = trim first;
               val = join_with ''='' parts
           in case decodeURIComponent rt val of
                None \<Rightarrow> Inl URIError
              | Some v \<Rightarrow> parse_each rt rest (list(name \<mapsto> v))))"

definition parseCookies :: "runtime \<Rightarrow> string option \<Rightarrow> jserror + (string \<rightharpoonup> string)" where
  "parseCookies rt cookieHeader =
     (case cookieHeader of
        None \<Rightarrow> Inr Map.empty
      | Some h \<Rightarrow> if h = [] then Inr Map.empty
                  else parse_each rt (split_on CHR '';'' h) Map.empty)"

text \<open>\<^verbatim>\<open>cookies.username\<close>: the string, or \<^verbatim>\<open>undefined\<close>.\<close>

definition cookie_value :: "(string \<rightharpoonup> string) \<Rightarrow> string \<Rightarrow> jsval" where
  "cookie_value cookies name = (case cookies name of None \<Rightarrow> Undefined | Some s \<Rightarrow> Str s)"

section \<open>The store (db.js)\<close>

subsection \<open>Stored values\<close>

text \<open>
  A stored value (\<open>sqlval\<close>) is NULL, a 64-bit integer, a real (a double that is not
  NaN) or a text. The driver binds a JavaScript value so: a string as text; a number
  that is a 32-bit integer as an integer, any other number as a real, NaN as NULL; a
  boolean as the integer 0 or 1; \<^verbatim>\<open>null\<close> and \<^verbatim>\<open>undefined\<close> as NULL; an array or an
  object as the text \<^verbatim>\<open>[object Object]\<close>.
\<close>

fun int32 :: "jsnum \<Rightarrow> int option" where
  "int32 (Fin r) =
     (if of_int \<lfloor>r\<rfloor> = r \<and> - (2 ^ 31) \<le> r \<and> r < 2 ^ 31 then Some \<lfloor>r\<rfloor> else None)"
| "int32 NegZero = Some 0"
| "int32 n = None"

fun bind :: "jsval \<Rightarrow> sqlval" where
  "bind Undefined = SqlNull"
| "bind Null = SqlNull"
| "bind (Bool b) = SqlInt (if b then 1 else 0)"
| "bind (Num n) =
     (case int32 n of
        Some i \<Rightarrow> SqlInt i
      | None \<Rightarrow> if n = NaN then SqlNull else SqlReal n)"
| "bind (Str s) = SqlText s"
| "bind (Arr xs) = SqlText ''[object Object]''"
| "bind (Obj kvs) = SqlText ''[object Object]''"

text \<open>
  What a column then stores. A TEXT column turns a number into its text. An INTEGER
  column turns a numeric text into a number and a real into an integer when the real
  is one, strictly between the least and the greatest 64-bit integer. A REAL column
  does the same and then holds every integer as a real.
\<close>

fun text_affinity :: "runtime \<Rightarrow> sqlval \<Rightarrow> string option" where
  "text_affinity rt SqlNull = None"
| "text_affinity rt (SqlText s) = Some s"
| "text_affinity rt v = Some (sqliteNumText rt v)"

fun as_integer :: "jsnum \<Rightarrow> int option" where
  "as_integer (Fin r) =
     (if of_int \<lfloor>r\<rfloor> = r \<and> - (2 ^ 63) < r \<and> r < 2 ^ 63 - 1 then Some \<lfloor>r\<rfloor> else None)"
| "as_integer NegZero = Some 0"
| "as_integer n = None"

fun real_to_integer :: "sqlval \<Rightarrow> sqlval" where
  "real_to_integer (SqlReal d) = (case as_integer d of Some i \<Rightarrow> SqlInt i | None \<Rightarrow> SqlReal d)"
| "real_to_integer v = v"

fun integer_affinity :: "runtime \<Rightarrow> sqlval \<Rightarrow> sqlval" where
  "integer_affinity rt (SqlText s) =
     (case sqliteTextNum rt s of None \<Rightarrow> SqlText s | Some v \<Rightarrow> real_to_integer v)"
| "integer_affinity rt v = real_to_integer v"

fun integer_to_real :: "sqlval \<Rightarrow> sqlval" where
  "integer_to_real (SqlInt i) = SqlReal (fl (of_int i))"
| "integer_to_real v = v"

fun real_affinity :: "runtime \<Rightarrow> sqlval \<Rightarrow> sqlval" where
  "real_affinity rt (SqlText s) =
     (case sqliteTextNum rt s of None \<Rightarrow> SqlText s | Some v \<Rightarrow> integer_to_real v)"
| "real_affinity rt v = integer_to_real v"

definition to_text :: "runtime \<Rightarrow> jsval \<Rightarrow> string option" where
  "to_text rt v = text_affinity rt (bind v)"

definition to_num :: "runtime \<Rightarrow> jsval \<Rightarrow> sqlval" where
  "to_num rt v = integer_affinity rt (bind v)"

definition to_real :: "runtime \<Rightarrow> jsval \<Rightarrow> sqlval" where
  "to_real rt v = real_affinity rt (bind v)"

text \<open>
  What a row read by \<^verbatim>\<open>db.get\<close> or \<^verbatim>\<open>db.all\<close> holds in JavaScript: the driver
  returns a stored integer as the nearest double.
\<close>

fun of_text :: "string option \<Rightarrow> jsval" where
  "of_text None = Null"
| "of_text (Some s) = Str s"

fun of_sql :: "sqlval \<Rightarrow> jsval" where
  "of_sql SqlNull = Null"
| "of_sql (SqlInt i) = Num (fl (of_int i))"
| "of_sql (SqlReal d) = Num d"
| "of_sql (SqlText s) = Str s"

text \<open>
  \<^verbatim>\<open>JSON.stringify\<close> and \<^verbatim>\<open>JSON.parse\<close> belong to the language. A JSON text is
  represented by the value it denotes: serialising keeps what JSON can express (NaN,
  the infinities and, inside an array, \<^verbatim>\<open>undefined\<close> become \<^verbatim>\<open>null\<close>; the negative
  zero becomes zero; a property whose value is \<^verbatim>\<open>undefined\<close> is left out;
  \<^verbatim>\<open>JSON.stringify(undefined)\<close> is \<^verbatim>\<open>undefined\<close>, not a text), and parsing returns
  the denoted value.
\<close>

datatype json = Json jsval

fun json_norm :: "jsval \<Rightarrow> jsval" where
  "json_norm (Num NaN) = Null"
| "json_norm (Num PosInf) = Null"
| "json_norm (Num NegInf) = Null"
| "json_norm (Num NegZero) = Num (Fin 0)"
| "json_norm (Arr xs) = Arr (map (\<lambda>v. if v = Undefined then Null else json_norm v) xs)"
| "json_norm (Obj kvs) =
     Obj (map (\<lambda>kv. (fst kv, json_norm (snd kv))) (filter (\<lambda>kv. snd kv \<noteq> Undefined) kvs))"
| "json_norm v = v"

definition JSON_stringify :: "jsval \<Rightarrow> json option" where
  "JSON_stringify v = (if v = Undefined then None else Some (Json (json_norm v)))"

fun JSON_parse :: "json \<Rightarrow> jsval" where
  "JSON_parse (Json v) = v"

subsection \<open>Tables\<close>

record user =
  u_username :: "string option"
  u_password :: string
  u_email :: string

record product =
  p_id :: string
  p_title :: string
  p_description :: "string option"
  p_price :: "string option"
  p_stock :: sqlval
  p_image :: "string option"
  p_owner :: "string option"

record txn =
  t_id :: int
  t_owner :: "string option"
  t_items :: json
  t_total :: sqlval
  t_itemCount :: sqlval
  t_paymentMethod :: "string option"
  t_proofUploaded :: int
  t_proofFilename :: "string option"
  t_location :: "json option"
  t_timestamp :: "string option"
  t_date :: "string option"

text \<open>
  The state the routes act on: the three tables, the files of the uploads directory,
  and the errors the SQLite driver is going to report, one entry for each coming
  statement (\<open>None\<close> or no entry: the statement runs; \<open>Some msg\<close>: the callback
  receives the error \<open>msg\<close> and the statement has no effect).
\<close>

record world =
  users :: "user list"
  products :: "product list"
  transactions :: "txn list"
  uploads :: "string set"
  faults :: "string option list"

type_synonym 'a dbresult = "(string + 'a) \<times> world"

definition db_call :: "(world \<Rightarrow> 'a dbresult) \<Rightarrow> world \<Rightarrow> 'a dbresult" where
  "db_call run w =
     (case faults w of
        [] \<Rightarrow> run w
      | None # fs \<Rightarrow> run (w\<lparr>faults := fs\<rparr>)
      | Some err # fs \<Rightarrow> (Inl err, w\<lparr>faults := fs\<rparr>))"

subsection \<open>User operations\<close>

definition findUserByUsername :: "runtime \<Rightarrow> jsval \<Rightarrow> world \<Rightarrow> user option dbresult" where
  "findUserByUsername rt username =
     db_call (\<lambda>w.
       (Inr (case to_text rt username of
               None \<Rightarrow> None
             | Some s \<Rightarrow> find (\<lambda>u. u_username u = Some s) (users w)), w))"

definition createUser :: "runtime \<Rightarrow> jsval \<Rightarrow> jsval \<Rightarrow> jsval \<Rightarrow> world \<Rightarrow> unit dbresult" where
  "createUser rt username password email =
     db_call (\<lambda>w.
       case to_text rt password of
         None \<Rightarrow> (Inl ''SQLITE_CONSTRAINT: NOT NULL constraint failed: users.password'', w)
       | Some pw \<Rightarrow>
          (case to_text rt email of
             None \<Rightarrow> (Inl ''SQLITE_CONSTRAINT: NOT NULL constraint failed: users.email'', w)
           | Some em \<Rightarrow>
              (let name = to_text rt username in
               if name \<noteq> None \<and> name \<in> set (map u_username (users w))
               then (Inl ''SQLITE_CONSTRAINT: UNIQUE constraint failed: users.username'', w)
               else (Inr (),
                     w\<lparr>users := users w @
                        [\<lparr>u_username = name, u_password = pw, u_email = em\<rparr>]\<rparr>))))"

subsection \<open>Product operations\<close>

text \<open>
  \<^verbatim>\<open>getAllProducts(owner = null)\<close>: the WHERE clause is added only for a truthy
  \<open>owner\<close>; a comparison with NULL selects no row.
\<close>

definition getAllProducts :: "runtime \<Rightarrow> jsval \<Rightarrow> world \<Rightarrow> product list dbresult" where
  "getAllProducts rt owner0 =
     db_call (\<lambda>w.
       (let owner = (if owner0 = Undefined then Null else owner0) in
        (Inr (if truthy owner
              then (case to_text rt owner of
                      None \<Rightarrow> []
                    | Some s \<Rightarrow> filter (\<lambda>p. p_owner p = Some s) (products w))
              else products w), w)))"

definition getProductById :: "string \<Rightarrow> world \<Rightarrow> product option dbresult" where
  "getProductById i = db_call (\<lambda>w. (Inr (find (\<lambda>p. p_id p = i) (products w)), w))"

text \<open>
  \<^verbatim>\<open>createProduct\<close>: the id is the number \<^verbatim>\<open>Date.now()\<close>, a count \<open>i\<close> of
  milliseconds; it is bound as an integer or a real and stored in a TEXT column.
\<close>

definition createProduct ::
  "runtime \<Rightarrow> int \<Rightarrow> jsval \<Rightarrow> jsval \<Rightarrow> jsval \<Rightarrow> jsval \<Rightarrow> jsval \<Rightarrow> jsval \<Rightarrow> world \<Rightarrow> unit dbresult" where
  "createProduct rt i title description price stock img owner =
     db_call (\<lambda>w.
       case to_text rt title of
         None \<Rightarrow> (Inl ''SQLITE_CONSTRAINT: NOT NULL constraint failed: products.title'', w)
       | Some t \<Rightarrow>
          (let pid = sqliteNumText rt (bind (Num (fl (of_int i)))) in
           if pid \<in> set (map p_id (products w))
           then (Inl ''SQLITE_CONSTRAINT: UNIQUE constraint failed: products.id'', w)
           else (Inr (),
                 w\<lparr>products := products w @
                    [\<lparr>p_id = pid, p_title = t,
                      p_description = to_text rt description,
                      p_price = to_text rt price,
                      p_stock = to_num rt stock,
                      p_image = to_text rt img,
                      p_owner = to_text rt owner\<rparr>]\<rparr>)))"

text \<open>
  \<^verbatim>\<open>updateProduct\<close>: an UPDATE whose WHERE clause selects no row changes nothing and
  reports no error.
\<close>

definition updateProduct ::
  "runtime \<Rightarrow> string \<Rightarrow> jsval \<Rightarrow> jsval \<Rightarrow> jsval \<Rightarrow> jsval \<Rightarrow> jsval \<Rightarrow> world \<Rightarrow> unit dbresult" where
  "updateProduct rt i title description price stock img =
     db_call (\<lambda>w.
       if i \<notin> set (map p_id (products w)) then (Inr (), w)
       else
         (case to_text rt title of
            None \<Rightarrow> (Inl ''SQLITE_CONSTRAINT: NOT NULL constraint failed: products.title'', w)
          | Some t \<Rightarrow>
             (Inr (),
              w\<lparr>products :=
                  map (\<lambda>p. if p_id p = i
                            then p\<lparr>p_title := t,
                                   p_description := to_text rt description,
                                   p_price := to_text rt price,
                                   p_stock := to_num rt stock,
                                   p_image := to_text rt img\<rparr>
                            else p) (products w)\<rparr>)))"

definition deleteProduct :: "string \<Rightarrow> world \<Rightarrow> unit dbresult" where
  "deleteProduct i =
     db_call (\<lambda>w. (Inr (), w\<lparr>products := filter (\<lambda>p. p_id p \<noteq> i) (products w)\<rparr>))"

subsection \<open>Transaction operations\<close>

text \<open>The row a SELECT gives, with its JSON fields parsed (db.js, lines 171-176).\<close>

definition parse_row :: "txn \<Rightarrow> jsval" where
  "parse_row row =
     Obj [(''id'', of_sql (SqlInt (t_id row))),
          (''owner'', of_text (t_owner row)),
          (''items'', JSON_parse (t_items row)),
          (''total'', of_sql (t_total row)),
          (''itemCount'', of_sql (t_itemCount row)),
          (''paymentMethod'', of_text (t_paymentMethod row)),
          (''proofUploaded'', Bool (truthy (of_sql (SqlInt (t_proofUploaded row))))),
          (''proofFilename'', of_text (t_proofFilename row)),
          (''location'', (case t_location row of None \<Rightarrow> Null | Some j \<Rightarrow> JSON_parse j)),
          (''timestamp'', of_text (t_timestamp row)),
          (''date'', of_text (t_date row))]"

text \<open>\<^verbatim>\<open>ORDER BY id DESC\<close>; the ids of a table are distinct (PRIMARY KEY).\<close>

definition order_by_id_desc :: "txn list \<Rightarrow> txn list" where
  "order_by_id_desc rows = rev (sort_key t_id rows)"

definition getAllTransactions :: "runtime \<Rightarrow> jsval \<Rightarrow> world \<Rightarrow> jsval list dbresult" where
  "getAllTransactions rt owner0 =
     db_call (\<lambda>w.
       (let owner = (if owner0 = Undefined then Null else owner0);
            rows = (if truthy owner
                    then (case to_text rt owner of
                            None \<Rightarrow> []
                          | Some s \<Rightarrow> filter (\<lambda>t. t_owner t = Some s) (transactions w))
                    else transactions w)
        in (Inr (map parse_row (order_by_id_desc rows)), w)))"

text \<open>\<^verbatim>\<open>SELECT MAX(id)\<close>: NULL on the empty table.\<close>

fun max_id :: "txn list \<Rightarrow> int option" where
  "max_id [] = None"
| "max_id (t # ts) =
     (case max_id ts of None \<Rightarrow> Some (t_id t) | Some m \<Rightarrow> Some (max (t_id t) m))"

text \<open>
  \<^verbatim>\<open>(row.maxId || 0) + 1\<close>, where \<^verbatim>\<open>row.maxId\<close> is \<^verbatim>\<open>null\<close> or the greatest id
  as the driver returns it, a double; the sum is a sum of doubles.
\<close>

definition getNextTransactionId :: "world \<Rightarrow> jsnum dbresult" where
  "getNextTransactionId =
     db_call (\<lambda>w.
       (let maxId = (case max_id (transactions w) of
                       None \<Rightarrow> None
                     | Some m \<Rightarrow> Some (fl (of_int m)))
        in (Inr (num_add (case maxId of
                            None \<Rightarrow> Fin 0
                          | Some d \<Rightarrow> if truthy (Num d) then d else Fin 0)
                         (Fin 1)),
            w)))"

text \<open>The object \<^verbatim>\<open>transactionData\<close> that the route builds (server.js, lines 327-346).\<close>

record transactionData =
  td_id :: jsnum
  td_owner :: jsval
  td_items :: jsval
  td_total :: jsnum
  td_itemCount :: jsnum
  td_paymentMethod :: jsval
  td_proofUploaded :: bool
  td_proofFilename :: jsval
  td_location :: jsval
  td_timestamp :: jsval
  td_date :: string

text \<open>
  The id of the row that an INSERT writes to the column \<^verbatim>\<open>id INTEGER PRIMARY KEY\<close>:
  the bound value when it is an integer or converts to one, and the greatest id plus
  one (1 on the empty table) when it is NULL; any other value is refused with a
  datatype mismatch. (Once the greatest id is the greatest 64-bit integer SQLite draws
  an unused id at random for NULL; the route never binds NULL, and the ids of the model
  are unbounded.)
\<close>

definition rowid :: "runtime \<Rightarrow> txn list \<Rightarrow> sqlval \<Rightarrow> int option" where
  "rowid rt rows v =
     (case integer_affinity rt v of
        SqlNull \<Rightarrow> Some (case max_id rows of None \<Rightarrow> 1 | Some m \<Rightarrow> m + 1)
      | SqlInt i \<Rightarrow> Some i
      | SqlReal d \<Rightarrow> None
      | SqlText s \<Rightarrow> None)"

definition createTransaction :: "runtime \<Rightarrow> transactionData \<Rightarrow> world \<Rightarrow> transactionData dbresult" where
  "createTransaction rt td =
     db_call (\<lambda>w.
       case rowid rt (transactions w) (bind (Num (td_id td))) of
         None \<Rightarrow> (Inl ''SQLITE_MISMATCH: datatype mismatch'', w)
       | Some i \<Rightarrow>
          (case JSON_stringify (td_items td) of
             None \<Rightarrow> (Inl ''SQLITE_CONSTRAINT: NOT NULL constraint failed: transactions.items'', w)
           | Some items \<Rightarrow>
              if i \<in> set (map t_id (transactions w))
              then (Inl ''SQLITE_CONSTRAINT: UNIQUE constraint failed: transactions.id'', w)
              else (Inr td,
                    w\<lparr>transactions := transactions w @
                       [\<lparr>t_id = i,
                         t_owner = to_text rt (td_owner td),
                         t_items = items,
                         t_total = to_real rt (Num (td_total td)),
                         t_itemCount = to_num rt (Num (td_itemCount td)),
                         t_paymentMethod = to_text rt (td_paymentMethod td),
                         t_proofUploaded = (if td_proofUploaded td then 1 else 0),
                         t_proofFilename = to_text rt (td_proofFilename td),
                         t_location = (if truthy (td_location td)
                                       then JSON_stringify (td_location td) else None),
                         t_timestamp = to_text rt (td_timestamp td),
                         t_date = Some (td_date td)\<rparr>]\<rparr>)))"

section \<open>The HTTP surface (server.js)\<close>

subsection \<open>Requests and responses\<close>

text \<open>
  A request after the middleware has run: the parsed query string (a value is a
  string, an array or an object), the headers (names in lower case), the route
  parameter \<^verbatim>\<open>:id\<close>, the parsed body (the own properties of \<^verbatim>\<open>req.body\<close>, none
  when no body was sent) and the name under which the upload middleware stored the
  file of the request, if it had one.
\<close>

record request =
  query :: "(string \<times> jsval) list"
  headers :: "(string \<times> string) list"
  params_id :: string
  body :: "(string \<times> jsval) list"
  req_file :: "string option"

text \<open>
  The clock: \<^verbatim>\<open>Date.now()\<close>, a count of milliseconds, and the two renderings of
  \<^verbatim>\<open>new Date()\<close>.
\<close>

record clock =
  now :: int
  isoString :: string
  localeString :: string

datatype payload = JsonBody jsval | TextBody string | Location string

datatype cookie_op = SetCookie string jsval | ClearCookie string

datatype response = Response nat payload "cookie_op list"

definition json :: "nat \<Rightarrow> jsval \<Rightarrow> response" where
  "json st v = Response st (JsonBody v) []"

definition send :: "nat \<Rightarrow> string \<Rightarrow> response" where
  "send st s = Response st (TextBody s) []"

definition redirect :: "string \<Rightarrow> response" where
  "redirect url = Response 302 (Location url) []"

definition header :: "request \<Rightarrow> string \<Rightarrow> jsval" where
  "header req name = (case map_of (headers req) name of None \<Rightarrow> Undefined | Some s \<Rightarrow> Str s)"

subsection \<open>The acting username\<close>

text \<open>
  The two listing routes compute it in steps (lines 106-110 and 277-281): the cookie
  header is parsed whatever the query and the header hold.
\<close>

definition listing_username :: "runtime \<Rightarrow> request \<Rightarrow> jserror + jsval" where
  "listing_username rt req =
     (let fromQuery = field (query req) ''username'';
          fromHeader = header req ''x-username''
      in case parseCookies rt (map_of (headers req) ''cookie'') of
           Inl e \<Rightarrow> Inl e
         | Inr cookies \<Rightarrow>
            (let fromCookie = cookie_value cookies ''username''
             in Inr (js_or (js_or (js_or fromQuery fromHeader) fromCookie) Null)))"

text \<open>
  The routes that create a product, delete a product and create a transaction use one
  expression (lines 127, 252 and 318), where \<^verbatim>\<open>||\<close> parses the cookie header only
  when the query and the header give nothing.
\<close>

definition ownerCandidate :: "runtime \<Rightarrow> request \<Rightarrow> jserror + jsval" where
  "ownerCandidate rt req =
     (if truthy (field (query req) ''username'') then Inr (field (query req) ''username'')
      else if truthy (header req ''x-username'') then Inr (header req ''x-username'')
      else (case parseCookies rt (map_of (headers req) ''cookie'') of
              Inl e \<Rightarrow> Inl e
            | Inr cookies \<Rightarrow> Inr (js_or (cookie_value cookies ''username'') Null)))"

subsection \<open>Files of the uploads directory\<close>

text \<open>\<^verbatim>\<open>upload.single('image')\<close> stores the file of the request before the handler runs.\<close>

definition upload_single :: "request \<Rightarrow> world \<Rightarrow> world" where
  "upload_single req w =
     (case req_file req of None \<Rightarrow> w | Some f \<Rightarrow> w\<lparr>uploads := insert f (uploads w)\<rparr>)"

text \<open>
  \<^verbatim>\<open>if (product.image) { try { if (fs.existsSync(p)) fs.unlinkSync(p); } catch (e) {} }\<close>
\<close>

definition unlink_image :: "product \<Rightarrow> world \<Rightarrow> world" where
  "unlink_image product w =
     (case p_image product of
        None \<Rightarrow> w
      | Some f \<Rightarrow> if truthy (Str f) then w\<lparr>uploads := uploads w - {f}\<rparr> else w)"

subsection \<open>Product routes\<close>

definition product_row :: "product \<Rightarrow> jsval" where
  "product_row p =
     Obj [(''id'', Str (p_id p)),
          (''title'', Str (p_title p)),
          (''description'', of_text (p_description p)),
          (''price'', of_text (p_price p)),
          (''stock'', of_sql (p_stock p)),
          (''image'', of_text (p_image p)),
          (''owner'', of_text (p_owner p))]"

definition server_error_text :: response where
  "server_error_text = send 500 ''Server error''"

definition server_error_json :: response where
  "server_error_json = json 500 (Obj [(''error'', Str ''Server error'')])"

text \<open>Route 3, \<^verbatim>\<open>GET /products\<close>.\<close>

definition get_products :: "runtime \<Rightarrow> request \<Rightarrow> world \<Rightarrow> response \<times> world" where
  "get_products rt req w =
     (case listing_username rt req of
        Inl e \<Rightarrow> (json 200 (Arr []), w)
      | Inr username \<Rightarrow>
         (case getAllProducts rt username w of
            (Inl err, w1) \<Rightarrow> (json 200 (Arr []), w1)
          | (Inr ps, w1) \<Rightarrow> (json 200 (Arr (map product_row ps)), w1)))"

text \<open>Route 4, \<^verbatim>\<open>POST /products\<close>.\<close>

definition post_products :: "runtime \<Rightarrow> clock \<Rightarrow> request \<Rightarrow> world \<Rightarrow> response \<times> world" where
  "post_products rt clk req w0 =
     (let w = upload_single req w0;
          title = field (body req) ''title'';
          description = field (body req) ''description'';
          price = field (body req) ''price'';
          stock = field (body req) ''stock'';
          img = (case req_file req of None \<Rightarrow> Null | Some f \<Rightarrow> Str f)
      in case ownerCandidate rt req of
           Inl e \<Rightarrow> (server_error_text, w)
         | Inr owner \<Rightarrow>
            (let productId = now clk
             in case createProduct rt productId
                       (js_or title (Str ''Untitled''))
                       (js_or description (Str []))
                       (js_or price (Str []))
                       (js_or stock (Num (Fin 0)))
                       img owner w of
                  (Inl err, w1) \<Rightarrow> (server_error_text, w1)
                | (Inr u, w1) \<Rightarrow> (redirect ''/inventory.html'', w1)))"

text \<open>Route 5, \<^verbatim>\<open>POST /products/:id\<close>.\<close>

definition post_products_id :: "runtime \<Rightarrow> request \<Rightarrow> world \<Rightarrow> response \<times> world" where
  "post_products_id rt req w0 =
     (let w = upload_single req w0;
          i = params_id req
      in case getProductById i w of
           (Inl err, w1) \<Rightarrow> (server_error_text, w1)
         | (Inr None, w1) \<Rightarrow> (send 404 ''Product not found'', w1)
         | (Inr (Some product), w1) \<Rightarrow>
            (let title = field (body req) ''title'';
                 description = field (body req) ''description'';
                 price = field (body req) ''price'';
                 stock = field (body req) ''stock'';
                 newImage = (case req_file req of
                               None \<Rightarrow> of_text (p_image product)
                             | Some f \<Rightarrow> Str f);
                 w2 = (case req_file req of
                         None \<Rightarrow> w1
                       | Some f \<Rightarrow> unlink_image product w1)
             in case updateProduct rt i
                       (if title \<noteq> Undefined then title else Str (p_title product))
                       (if description \<noteq> Undefined then description
                        else of_text (p_description product))
                       (if price \<noteq> Undefined then price else of_text (p_price product))
                       (if stock \<noteq> Undefined then stock else of_sql (p_stock product))
                       newImage w2 of
                  (Inl err, w3) \<Rightarrow> (server_error_text, w3)
                | (Inr u, w3) \<Rightarrow> (redirect ''/inventory.html'', w3)))"

text \<open>
  The test of line 254,
  \<^verbatim>\<open>product.owner && String(product.owner) !== String(ownerCandidate)\<close>: the
  conversions are made only for a truthy owner, and one that throws ends the handler.
\<close>

definition forbidden :: "runtime \<Rightarrow> product \<Rightarrow> jsval \<Rightarrow> jserror + bool" where
  "forbidden rt product candidate =
     (if truthy (of_text (p_owner product))
      then (case ToString rt (of_text (p_owner product)) of
              Inl e \<Rightarrow> Inl e
            | Inr a \<Rightarrow>
               (case ToString rt candidate of
                  Inl e \<Rightarrow> Inl e
                | Inr b \<Rightarrow> Inr (a \<noteq> b)))
      else Inr False)"

text \<open>Route 10, \<^verbatim>\<open>DELETE /products/:id\<close>.\<close>

definition delete_products_id :: "runtime \<Rightarrow> request \<Rightarrow> world \<Rightarrow> response \<times> world" where
  "delete_products_id rt req w =
     (let i = params_id req
      in case getProductById i w of
           (Inl err, w1) \<Rightarrow> (server_error_json, w1)
         | (Inr None, w1) \<Rightarrow> (json 404 (Obj [(''error'', Str ''Product not found'')]), w1)
         | (Inr (Some product), w1) \<Rightarrow>
            (case ownerCandidate rt req of
               Inl e \<Rightarrow> (server_error_json, w1)
             | Inr candidate \<Rightarrow>
                (case forbidden rt product candidate of
                   Inl e \<Rightarrow> (server_error_json, w1)
                 | Inr True \<Rightarrow> (json 403 (Obj [(''error'', Str ''Forbidden'')]), w1)
                 | Inr False \<Rightarrow>
                    (case deleteProduct i (unlink_image product w1) of
                       (Inl err, w3) \<Rightarrow> (server_error_json, w3)
                     | (Inr u, w3) \<Rightarrow> (json 200 (Obj [(''ok'', Bool True)]), w3)))))"

subsection \<open>Account routes\<close>

text \<open>
  The end of a registration and of a login (lines 199-202 and 216-219):
  \<^verbatim>\<open>res.cookie('username', username, ...)\<close> and then
  \<^verbatim>\<open>res.redirect('/dashboard.html?user=' + encodeURIComponent(username))\<close>, where
  the builtin converts its argument to a string first; when that conversion throws,
  the handler of the exception answers \<open>caught\<close> and the cookie stays set.
\<close>

fun with_cookie :: "cookie_op \<Rightarrow> response \<Rightarrow> response" where
  "with_cookie c (Response st p cs) = Response st p (c # cs)"

definition dashboard :: "runtime \<Rightarrow> jsval \<Rightarrow> response \<Rightarrow> response" where
  "dashboard rt username caught =
     with_cookie (SetCookie ''username'' username)
       (case ToString rt username of
          Inl e \<Rightarrow> caught
        | Inr s \<Rightarrow> redirect (''/dashboard.html?user='' @ encodeURIComponent rt s))"

text \<open>Route 6, \<^verbatim>\<open>POST /register\<close>.\<close>

definition post_register :: "runtime \<Rightarrow> request \<Rightarrow> world \<Rightarrow> response \<times> world" where
  "post_register rt req w =
     (let username = field (body req) ''username'';
          password = field (body req) ''password'';
          email = field (body req) ''email''
      in case findUserByUsername rt username w of
           (Inl err, w1) \<Rightarrow> (server_error_text, w1)
         | (Inr (Some existingUser), w1) \<Rightarrow>
             (send 200 ''Username already exists. Please choose another.'', w1)
         | (Inr None, w1) \<Rightarrow>
            (case createUser rt username password email w1 of
               (Inl err, w2) \<Rightarrow> (server_error_text, w2)
             | (Inr u, w2) \<Rightarrow> (dashboard rt username server_error_text, w2)))"

text \<open>Route 7, \<^verbatim>\<open>POST /login\<close>; \<^verbatim>\<open>===\<close> holds for the stored string only.\<close>

definition post_login :: "runtime \<Rightarrow> request \<Rightarrow> world \<Rightarrow> response \<times> world" where
  "post_login rt req w =
     (let username = field (body req) ''username'';
          password = field (body req) ''password''
      in case findUserByUsername rt username w of
           (Inl err, w1) \<Rightarrow> (redirect ''/?error=server'', w1)
         | (Inr None, w1) \<Rightarrow> (redirect ''/?error=invalid'', w1)
         | (Inr (Some user), w1) \<Rightarrow>
             if Str (u_password user) = password
             then (dashboard rt username (redirect ''/?error=server''), w1)
             else (redirect ''/?error=invalid'', w1))"

subsection \<open>Transaction routes\<close>

text \<open>Route 11, \<^verbatim>\<open>GET /transactions\<close>.\<close>

definition get_transactions :: "runtime \<Rightarrow> request \<Rightarrow> world \<Rightarrow> response \<times> world" where
  "get_transactions rt req w =
     (case listing_username rt req of
        Inl e \<Rightarrow> (json 200 (Arr []), w)
      | Inr username \<Rightarrow>
         (case getAllTransactions rt username w of
            (Inl err, w1) \<Rightarrow> (json 200 (Arr []), w1)
          | (Inr ts, w1) \<Rightarrow> (json 200 (Arr ts), w1)))"

text \<open>
  \<^verbatim>\<open>items.reduce(f, 0)\<close>: a left fold over an array, stopped by an exception of the
  callback; a value that is not an array has no \<^verbatim>\<open>reduce\<close> and the call throws.
\<close>

fun reduce_from :: "(jsnum \<Rightarrow> jsval \<Rightarrow> jserror + jsnum) \<Rightarrow> jsval list \<Rightarrow> jsnum \<Rightarrow> jserror + jsnum" where
  "reduce_from f [] acc = Inr acc"
| "reduce_from f (x # xs) acc =
     (case f acc x of Inl e \<Rightarrow> Inl e | Inr acc' \<Rightarrow> reduce_from f xs acc')"

fun reduce :: "(jsnum \<Rightarrow> jsval \<Rightarrow> jserror + jsnum) \<Rightarrow> jsval \<Rightarrow> jserror + jsnum" where
  "reduce f (Arr xs) = reduce_from f xs (Fin 0)"
| "reduce f v = Inl TypeError"

text \<open>
  The two callbacks of lines 321 and 322:
  \<^verbatim>\<open>sum + (Number(item.qty || 1) * Number(item.price || 0))\<close> and
  \<^verbatim>\<open>sum + Number(item.qty || 1)\<close>.
\<close>

definition add_line_total :: "runtime \<Rightarrow> jsnum \<Rightarrow> jsval \<Rightarrow> jserror + jsnum" where
  "add_line_total rt sum0 item =
     (case js_get item ''qty'' of
        Inl e \<Rightarrow> Inl e
      | Inr qty \<Rightarrow>
         (case ToNumber rt (js_or qty (Num (Fin 1))) of
            Inl e \<Rightarrow> Inl e
          | Inr q \<Rightarrow>
             (case js_get item ''price'' of
                Inl e \<Rightarrow> Inl e
              | Inr price \<Rightarrow>
                 (case ToNumber rt (js_or price (Num (Fin 0))) of
                    Inl e \<Rightarrow> Inl e
                  | Inr p \<Rightarrow> Inr (num_add sum0 (num_mul q p))))))"

definition add_line_count :: "runtime \<Rightarrow> jsnum \<Rightarrow> jsval \<Rightarrow> jserror + jsnum" where
  "add_line_count rt sum0 item =
     (case js_get item ''qty'' of
        Inl e \<Rightarrow> Inl e
      | Inr qty \<Rightarrow>
         (case ToNumber rt (js_or qty (Num (Fin 1))) of
            Inl e \<Rightarrow> Inl e
          | Inr q \<Rightarrow> Inr (num_add sum0 q)))"

text \<open>The object \<^verbatim>\<open>{ id, ...transactionData }\<close> that \<^verbatim>\<open>createTransaction\<close> resolves to.\<close>

definition transaction_object :: "transactionData \<Rightarrow> jsval" where
  "transaction_object td =
     Obj [(''id'', Num (td_id td)),
          (''owner'', td_owner td),
          (''items'', td_items td),
          (''total'', Num (td_total td)),
          (''itemCount'', Num (td_itemCount td)),
          (''paymentMethod'', td_paymentMethod td),
          (''proofUploaded'', Bool (td_proofUploaded td)),
          (''proofFilename'', td_proofFilename td),
          (''location'', td_location td),
          (''timestamp'', td_timestamp td),
          (''date'', Str (td_date td))]"

definition no_items :: response where
  "no_items = json 400 (Obj [(''error'', Str ''No items in transaction'')])"

text \<open>Route 13, \<^verbatim>\<open>POST /transactions\<close>.\<close>

definition post_transactions :: "runtime \<Rightarrow> clock \<Rightarrow> request \<Rightarrow> world \<Rightarrow> response \<times> world" where
  "post_transactions rt clk req w =
     (let items = field (body req) ''items'';
          paymentMethod = field (body req) ''paymentMethod'';
          proofUploaded = field (body req) ''proofUploaded'';
          timestamp = field (body req) ''timestamp''
      in if \<not> truthy items then (no_items, w)
         else
          (case js_get items ''length'' of
             Inl e \<Rightarrow> (server_error_json, w)
           | Inr len \<Rightarrow>
              if \<not> truthy len then (no_items, w)
              else
               (case ownerCandidate rt req of
                  Inl e \<Rightarrow> (server_error_json, w)
                | Inr owner \<Rightarrow>
                   (case reduce (add_line_total rt) items of
                      Inl e \<Rightarrow> (server_error_json, w)
                    | Inr tot \<Rightarrow>
                       (case reduce (add_line_count rt) items of
                          Inl e \<Rightarrow> (server_error_json, w)
                        | Inr itemCount \<Rightarrow>
                           (case getNextTransactionId w of
                              (Inl err, w1) \<Rightarrow> (server_error_json, w1)
                            | (Inr nextId, w1) \<Rightarrow>
                               (let transactionData =
                                      \<lparr>td_id = nextId,
                                       td_owner = owner,
                                       td_items = items,
                                       td_total = tot,
                                       td_itemCount = itemCount,
                                       td_paymentMethod = js_or paymentMethod (Str ''CASH''),
                                       td_proofUploaded = truthy proofUploaded,
                                       td_proofFilename =
                                         js_or (field (body req) ''proofFilename'') Null,
                                       td_location = js_or (field (body req) ''location'') Null,
                                       td_timestamp = js_or timestamp (Str (isoString clk)),
                                       td_date = localeString clk\<rparr>
                                in case createTransaction rt transactionData w1 of
                                     (Inl err, w2) \<Rightarrow> (server_error_json, w2)
                                   | (Inr newTransaction, w2) \<Rightarrow>
                                      (json 200
                                         (Obj [(''ok'', Bool True),
                                               (''transaction'',
                                                transaction_object newTransaction)]),
                                       w2))))))))"

section \<open>Notions used to state the properties\<close>

text \<open>The driver reports no error for the statements to come.\<close>

definition fault_free :: "world \<Rightarrow> bool" where
  "fault_free w = list_all (\<lambda>f. f = None) (faults w)"

text \<open>The state a statement runs in: the entry of the driver for it is consumed.\<close>

definition settle :: "world \<Rightarrow> world" where
  "settle w = w\<lparr>faults := tl (faults w)\<rparr>"

text \<open>The products table respects its PRIMARY KEY.\<close>

definition unique_ids :: "world \<Rightarrow> bool" where
  "unique_ids w = distinct (map p_id (products w))"

text \<open>
  A stock that the route reads and writes back unchanged: NULL; an integer of
  magnitude at most \<open>2^53\<close>, which the driver returns exactly; a real that the INTEGER
  column keeps as a real; a text that the column keeps as a text.
\<close>

definition stock_settled :: "runtime \<Rightarrow> product \<Rightarrow> bool" where
  "stock_settled rt p =
     (case p_stock p of
        SqlNull \<Rightarrow> True
      | SqlInt i \<Rightarrow> \<bar>i\<bar> \<le> 2 ^ 53
      | SqlReal d \<Rightarrow> d \<noteq> NaN \<and> as_integer d = None
      | SqlText s \<Rightarrow> sqliteTextNum rt s = None)"

text \<open>
  The row that the UPDATE of route 5 writes over a row \<open>q\<close>, for the product \<open>p\<close> that
  the route has read and the text \<open>t\<close> of the title: each field is the one of the
  request when the request has it, and otherwise the one of \<open>p\<close>.
\<close>

definition merged :: "runtime \<Rightarrow> request \<Rightarrow> product \<Rightarrow> string \<Rightarrow> product \<Rightarrow> product" where
  "merged rt req p t q =
     q\<lparr>p_title := t,
       p_description := to_text rt (if field (body req) ''description'' \<noteq> Undefined
                                    then field (body req) ''description''
                                    else of_text (p_description p)),
       p_price := to_text rt (if field (body req) ''price'' \<noteq> Undefined
                              then field (body req) ''price'' else of_text (p_price p)),
       p_stock := to_num rt (if field (body req) ''stock'' \<noteq> Undefined
                             then field (body req) ''stock'' else of_sql (p_stock p)),
       p_image := to_text rt (case req_file req of
                                None \<Rightarrow> of_text (p_image p) | Some f \<Rightarrow> Str f)\<rparr>"


text \<open>The same rule with "present" read as "present and truthy" (not the empty string).\<close>

definition first_truthy :: "jsval \<Rightarrow> jsval \<Rightarrow> jsval \<Rightarrow> jsval" where
  "first_truthy q h c =
     (if truthy q then q
      else if truthy h then h
      else if truthy c then c
      else Null)"

text \<open>The three sources of a request whose cookie header was parsed to \<open>cookies\<close>.\<close>

definition from_query :: "request \<Rightarrow> jsval" where
  "from_query req = field (query req) ''username''"

definition from_header :: "request \<Rightarrow> jsval" where
  "from_header req = header req ''x-username''"

definition from_cookie :: "(string \<rightharpoonup> string) \<Rightarrow> jsval" where
  "from_cookie cookies = cookie_value cookies ''username''"




text \<open>The greatest id of the ledger, or 0 when it is empty, plus 1.\<close>

definition next_id :: "world \<Rightarrow> int" where
  "next_id w = (if transactions w = [] then 0 else Max (t_id ` set (transactions w))) + 1"

text \<open>The username is the one of a stored user.\<close>

definition registered :: "runtime \<Rightarrow> jsval \<Rightarrow> world \<Rightarrow> bool" where
  "registered rt username w =
     (case to_text rt username of
        None \<Rightarrow> False
      | Some s \<Rightarrow> Some s \<in> set (map u_username (users w)))"

text \<open>The request passes the validation of lines 314-316: it has items.\<close>

definition has_items :: "request \<Rightarrow> bool" where
  "has_items req =
     (truthy (field (body req) ''items'')
      \<and> (case js_get (field (body req) ''items'') ''length'' of
           Inl e \<Rightarrow> False
         | Inr len \<Rightarrow> truthy len))"


definition property_or :: "runtime \<Rightarrow> jsval \<Rightarrow> string \<Rightarrow> rat \<Rightarrow> jserror + jsnum" where
  "property_or rt item name d =
     (case js_get item name of
        Inl e \<Rightarrow> Inl e
      | Inr v \<Rightarrow> if truthy v then ToNumber rt v else Inr (Fin d))"

definition line_quantity :: "runtime \<Rightarrow> jsval \<Rightarrow> jserror + jsnum" where
  "line_quantity rt item = property_or rt item ''qty'' 1"

definition line_amount :: "runtime \<Rightarrow> jsval \<Rightarrow> jserror + jsnum" where
  "line_amount rt item =
     (case property_or rt item ''qty'' 1 of
        Inl e \<Rightarrow> Inl e
      | Inr q \<Rightarrow>
         (case property_or rt item ''price'' 0 of
            Inl e \<Rightarrow> Inl e
          | Inr p \<Rightarrow> Inr (num_mul q p)))"

definition sum_in_order :: "jsnum list \<Rightarrow> jsnum" where
  "sum_in_order xs = foldl num_add (Fin 0) xs"

definition spec_total :: "runtime \<Rightarrow> jsval list \<Rightarrow> jserror + jsnum" where
  "spec_total rt items =
     (case collect (map (line_amount rt) items) of
        Inl e \<Rightarrow> Inl e
      | Inr amounts \<Rightarrow> Inr (sum_in_order amounts))"

definition spec_itemCount :: "runtime \<Rightarrow> jsval list \<Rightarrow> jserror + jsnum" where
  "spec_itemCount rt items =
     (case collect (map (line_quantity rt) items) of
        Inl e \<Rightarrow> Inl e
      | Inr quantities \<Rightarrow> Inr (sum_in_order quantities))"

subsection \<open>Sample data\<close>

text \<open>
  A runtime for the examples. Its percent decoding returns a text without a percent
  sign as it is and fails on the text \<^verbatim>\<open>%\<close>, as the builtin does; no example formats
  or parses a number, or depends on the text of a number.
\<close>

definition sample_runtime :: runtime where
  "sample_runtime =
     \<lparr>decodeURIComponent = (\<lambda>s. if CHR ''%'' \<in> set s then None else Some s),
      encodeURIComponent = (\<lambda>s. s),
      numberToString = (\<lambda>n. ''NaN''),
      stringToNumber = (\<lambda>s. NaN),
      sqliteNumText = (\<lambda>v. ''0''),
      sqliteTextNum = (\<lambda>s. None)\<rparr>"

definition sample_clock :: clock where
  "sample_clock =
     \<lparr>now = 1700000000123,
      isoString = ''2023-11-14T22:13:20.123Z'',
      localeString = ''11/14/2023, 22:13''\<rparr>"

definition empty_world :: world where
  "empty_world = \<lparr>users = [], products = [], transactions = [], uploads = {}, faults = []\<rparr>"

definition lamp :: "string option \<Rightarrow> product" where
  "lamp owner =
     \<lparr>p_id = ''1700000000000.0'', p_title = ''Lamp'', p_description = Some ''Desk lamp'',
      p_price = Some ''12.50'', p_stock = SqlInt 3,
      p_image = Some ''1700000000000-lamp.png'', p_owner = owner\<rparr>"

definition shop :: "string option \<Rightarrow> world" where
  "shop owner =
     \<lparr>users = [], products = [lamp owner], transactions = [],
      uploads = {''1700000000000-lamp.png''}, faults = []\<rparr>"

definition bare_request :: request where
  "bare_request =
     \<lparr>query = [], headers = [], params_id = ''1700000000000.0'', body = [], req_file = None\<rparr>"

definition sale :: "int \<Rightarrow> txn" where
  "sale i =
     \<lparr>t_id = i, t_owner = Some ''alice'', t_items = Json (Arr [Obj [(''price'', Num (Fin 4))]]),
      t_total = SqlReal (Fin 4), t_itemCount = SqlInt 1, t_paymentMethod = Some ''CASH'',
      t_proofUploaded = 0, t_proofFilename = None, t_location = None,
      t_timestamp = Some ''2023-11-14T22:13:20.123Z'', t_date = Some ''11/14/2023, 22:13''\<rparr>"

definition two_items :: jsval where
  "two_items =
     Arr [Obj [(''price'', Num (Fin 10)), (''qty'', Num (Fin 2))],
          Obj [(''price'', Num (Fin 5)), (''qty'', Num (Fin 1))]]"

section \<open>Facts about doubles\<close>

lemma exponent_from_cases:
  "exponent_from k a = - 1022
   \<or> (2 powi (exponent_from k a) \<le> a \<and> exponent_from k a \<le> int k - 1022)"
  by (induction k) auto

lemma exponent_from_unique:
  assumes "- 1022 \<le> e" "e \<le> int k - 1022" "2 powi e \<le> a" "a < 2 powi (e + 1)"
  shows "exponent_from k a = e"
  using assms
proof (induction k)
  case 0
  then show ?case by simp
next
  case (Suc k)
  show ?case
  proof (cases "2 powi (int (Suc k) - 1022) \<le> a")
    case True
    with Suc.prems(4) have "(2::rat) powi (int (Suc k) - 1022) < 2 powi (e + 1)" by simp
    then have "int (Suc k) - 1022 < e + 1"
      by (metis not_less power_int_increasing one_le_numeral)
    with Suc.prems(2) True show ?thesis by simp
  next
    case False
    with Suc.prems(3) have "(2::rat) powi e < 2 powi (int (Suc k) - 1022)" by simp
    then have "e < int (Suc k) - 1022"
      by (metis not_less power_int_increasing one_le_numeral)
    with False Suc show ?thesis by simp
  qed
qed

lemma exponent_unique:
  "- 1022 \<le> e \<Longrightarrow> e \<le> 1023 \<Longrightarrow> 2 powi e \<le> a \<Longrightarrow> a < 2 powi (e + 1) \<Longrightarrow> exponent a = e"
  unfolding exponent_def by (rule exponent_from_unique) simp_all

lemma exponent_small:
  assumes "a < 2 ^ 53"
  shows "exponent a \<le> 52"
proof -
  from exponent_from_cases [of 2045 a]
  consider "exponent a = - 1022" | "2 powi (exponent a) \<le> a"
    unfolding exponent_def by blast
  then show ?thesis
  proof cases
    case 1 then show ?thesis by simp
  next
    case 2
    with assms have "(2::rat) powi (exponent a) < 2 powi 53" by simp
    then have "exponent a < 53"
      by (metis not_less power_int_increasing one_le_numeral)
    then show ?thesis by simp
  qed
qed

lemma round_even_int [simp]: "round_even (of_int k) = k"
  by (simp add: round_even_def)

text \<open>An integer below \<open>2^53\<close> in magnitude is a double.\<close>

lemma round_magnitude_int:
  assumes "0 \<le> n" "n < 2 ^ 53"
  shows "round_magnitude (of_int n) = Some (of_int n)"
proof -
  let ?a = "of_int n :: rat"
  have "?a < 2 ^ 53" using assms(2) by (metis of_int_less_numeral_power_cancel_iff)
  then have q: "exponent ?a - 52 \<le> 0" using exponent_small [of ?a] by simp
  define d where "d = nat (- (exponent ?a - 52))"
  have p: "(2::rat) powi (exponent ?a - 52) = 1 / 2 ^ d"
    using q by (simp add: d_def power_int_def field_simps)
  have "?a / 2 powi (exponent ?a - 52) = of_int (n * 2 ^ d)" by (simp add: p)
  then have r: "round_even (?a / 2 powi (exponent ?a - 52)) = n * 2 ^ d"
    by (metis round_even_int)
  have v: "of_int (n * 2 ^ d) * 2 powi (exponent ?a - 52) = ?a" by (simp add: p)
  have "?a < 2 ^ 1024" using \<open>?a < 2 ^ 53\<close>
    by (rule less_trans) (simp add: power_strict_increasing_iff)
  then show ?thesis by (simp add: round_magnitude_def Let_def r v del: of_int_mult of_int_power)
qed

lemma exponent_2_53: "exponent 9007199254740992 = 53" "exponent 9007199254740993 = 53"
  by (rule exponent_unique; simp)+

lemma round_magnitude_2_53: "round_magnitude 9007199254740992 = Some 9007199254740992"
  by (simp add: round_magnitude_def exponent_2_53 round_even_def)

text \<open>\<open>2^53 + 1\<close> lies half way between two doubles and is rounded to the even one.\<close>

lemma round_even_tie: "round_even (9007199254740993 / 2) = 4503599627370496"
proof -
  have f: "\<lfloor>9007199254740993 / 2 :: rat\<rfloor> = 4503599627370496"
    by (rule floor_unique) simp_all
  show ?thesis unfolding round_even_def Let_def f by simp
qed

lemma round_magnitude_tie: "round_magnitude 9007199254740993 = Some 9007199254740992"
  by (simp add: round_magnitude_def exponent_2_53 round_even_tie)

lemma round_magnitude_int_le:
  assumes "0 \<le> n" "n \<le> 2 ^ 53"
  shows "round_magnitude (of_int n) = Some (of_int n)"
proof (cases "n = 2 ^ 53")
  case True
  then show ?thesis using round_magnitude_2_53 by simp
next
  case False
  with assms show ?thesis by (intro round_magnitude_int) simp_all
qed

lemma fl_int: "\<bar>n\<bar> \<le> 2 ^ 53 \<Longrightarrow> fl (of_int n) = Fin (of_int n)"
proof -
  assume b: "\<bar>n\<bar> \<le> 2 ^ 53"
  have "round_magnitude (of_int \<bar>n\<bar>) = Some (of_int \<bar>n\<bar>)"
    using b by (intro round_magnitude_int_le) simp_all
  then have "round_magnitude \<bar>of_int n\<bar> = Some \<bar>of_int n :: rat\<bar>" by simp
  then show ?thesis by (auto simp: fl_def round_signed_def)
qed

lemma fl_tie: "fl 9007199254740993 = Fin 9007199254740992"
  by (simp add: fl_def round_signed_def round_magnitude_tie)

lemma fl_2_53: "fl 9007199254740992 = Fin 9007199254740992"
  using fl_int [of 9007199254740992] by simp

text \<open>Sums and products of integers that stay within \<open>2^53\<close> are exact.\<close>

lemma num_add_int:
  "\<bar>a + b\<bar> \<le> 2 ^ 53 \<Longrightarrow> num_add (Fin (of_int a)) (Fin (of_int b)) = Fin (of_int (a + b))"
  using fl_int [of "a + b"] by (auto simp flip: of_int_add)

lemma num_mul_int:
  assumes "0 \<le> a" "0 \<le> b" "a * b \<le> 2 ^ 53"
  shows "num_mul (Fin (of_int a)) (Fin (of_int b)) = Fin (of_int (a * b))"
proof -
  have "0 \<le> a * b" using assms by simp
  then have "round_magnitude (of_int (a * b)) = Some (of_int (a * b))"
    using assms(3) by (intro round_magnitude_int_le)
  moreover have "\<bar>of_int a :: rat\<bar> * \<bar>of_int b\<bar> = of_int (a * b)"
    using assms by simp
  moreover have "\<not> (of_int a :: rat) < 0" "\<not> (of_int b :: rat) < 0"
    using assms by simp_all
  ultimately show ?thesis by (simp add: round_signed_def del: of_int_mult)
qed

section \<open>Facts about stored numbers\<close>

lemma int32_of_int:
  "int32 (Fin (of_int i)) = (if - (2 ^ 31) \<le> i \<and> i < 2 ^ 31 then Some i else None)"
proof -
  have "((of_int (- (2 ^ 31)) :: rat) \<le> of_int i) = (- (2 ^ 31) \<le> i)"
    by (rule of_int_le_iff)
  then have 1: "(- 2147483648 \<le> (of_int i :: rat)) = (- 2147483648 \<le> i)" by simp
  have "((of_int i :: rat) < of_int (2 ^ 31)) = (i < 2 ^ 31)"
    by (rule of_int_less_iff)
  then have 2: "((of_int i :: rat) < 2147483648) = (i < 2147483648)" by simp
  show ?thesis by (simp add: 1 2)
qed

lemma as_integer_of_int:
  "as_integer (Fin (of_int i)) = (if - (2 ^ 63) < i \<and> i < 2 ^ 63 - 1 then Some i else None)"
proof -
  have "((of_int (- (2 ^ 63)) :: rat) < of_int i) = (- (2 ^ 63) < i)"
    by (rule of_int_less_iff)
  then have 1: "(- 9223372036854775808 < (of_int i :: rat)) = (- 9223372036854775808 < i)"
    by simp
  have "((of_int i :: rat) < of_int (2 ^ 63 - 1)) = (i < 2 ^ 63 - 1)"
    by (rule of_int_less_iff)
  then have 2: "((of_int i :: rat) < 9223372036854775807) = (i < 9223372036854775807)"
    by simp
  show ?thesis by (simp add: 1 2)
qed

lemma int32_as_integer: "int32 d = Some i \<Longrightarrow> as_integer d = Some i"
proof (cases d)
  case (Fin r)
  assume a: "int32 d = Some i"
  with Fin have r: "r = of_int i" by (auto split: if_splits)
  from a Fin have "- (2 ^ 31) \<le> i \<and> i < 2 ^ 31"
    unfolding r int32_of_int by (simp split: if_splits)
  then have "- (2 ^ 63) < i \<and> i < 2 ^ 63 - 1" by simp
  then show ?thesis unfolding Fin r as_integer_of_int by simp
qed simp_all

text \<open>An integer of magnitude at most \<open>2^53\<close> is written to an INTEGER column as it is.\<close>

lemma to_num_int: "\<bar>i\<bar> \<le> 2 ^ 53 \<Longrightarrow> to_num rt (Num (Fin (of_int i))) = SqlInt i"
proof -
  assume b: "\<bar>i\<bar> \<le> 2 ^ 53"
  then have "- (2 ^ 63) < i \<and> i < 2 ^ 63 - 1" by (simp add: abs_le_iff)
  then have "as_integer (Fin (of_int i)) = Some i" unfolding as_integer_of_int by simp
  then show ?thesis
    unfolding to_num_def bind.simps int32_of_int by simp
qed

text \<open>It is written to a REAL column as a real, and read back as it was.\<close>

lemma to_real_int:
  "\<bar>i\<bar> \<le> 2 ^ 53 \<Longrightarrow> to_real rt (Num (Fin (of_int i))) = SqlReal (Fin (of_int i))"
  unfolding to_real_def bind.simps int32_of_int by (simp add: fl_int)

text \<open>It is accepted as the id of a row.\<close>

lemma rowid_int: "\<bar>i\<bar> \<le> 2 ^ 53 \<Longrightarrow> rowid rt rows (bind (Num (Fin (of_int i)))) = Some i"
  using to_num_int [of i rt] by (simp add: rowid_def to_num_def)

section \<open>Auxiliary facts\<close>

lemma settle_fields [simp]:
  "users (settle w) = users w" "products (settle w) = products w"
  "transactions (settle w) = transactions w" "uploads (settle w) = uploads w"
  "faults (settle w) = tl (faults w)"
  by (simp_all add: settle_def)

lemma fault_free_settle: "fault_free w \<Longrightarrow> fault_free (settle w)"
  by (cases "faults w") (simp_all add: fault_free_def settle_def)

lemma db_call_fault_free: "fault_free w \<Longrightarrow> db_call run w = run (settle w)"
  by (cases w) (auto simp: db_call_def fault_free_def settle_def split: list.splits option.splits)

lemma db_call_fault: "faults w = Some err # fs \<Longrightarrow> db_call run w = (Inl err, w\<lparr>faults := fs\<rparr>)"
  by (simp add: db_call_def)

lemma db_call_pass: "faults w = None # fs \<Longrightarrow> db_call run w = run (w\<lparr>faults := fs\<rparr>)"
  by (simp add: db_call_def)

lemma db_call_cases:
  obtains (fails) err fs where "faults w = Some err # fs" "db_call run w = (Inl err, w\<lparr>faults := fs\<rparr>)"
  | (runs) "db_call run w = run (settle w)"
proof (cases "faults w")
  case Nil
  then have "settle w = w" by (cases w) (simp add: settle_def)
  with Nil runs show ?thesis by (simp add: db_call_def)
next
  case (Cons f fs)
  show ?thesis
  proof (cases f)
    case None
    with Cons runs show ?thesis by (simp add: db_call_def settle_def)
  next
    case (Some err)
    with Cons fails show ?thesis by (simp add: db_call_def)
  qed
qed

lemma faults_upload_single [simp]: "faults (upload_single req w) = faults w"
  by (simp add: upload_single_def split: option.splits)

lemma faults_unlink_image [simp]: "faults (unlink_image p w) = faults w"
  by (simp add: unlink_image_def split: option.splits)

lemma max_id_Max: "max_id ts = (if ts = [] then None else Some (Max (t_id ` set ts)))"
proof (induction ts)
  case Nil show ?case by simp
next
  case (Cons t ts)
  then show ?case by (cases "ts = []") (auto simp: max_def)
qed

lemma find_None_ids: "i \<notin> set (map p_id ps) \<Longrightarrow> find (\<lambda>p. p_id p = i) ps = None"
  by (induction ps) auto

lemma find_Some_id: "find (\<lambda>p. p_id p = i) ps = Some p \<Longrightarrow> p_id p = i \<and> p \<in> set ps"
  by (induction ps) (auto split: if_splits)

lemma filter_other_ids: "i \<notin> set (map p_id ps) \<Longrightarrow> filter (\<lambda>p. p_id p \<noteq> i) ps = ps"
  by (induction ps) auto

lemma to_text_Str [simp]: "to_text rt (Str s) = Some s"
  by (simp add: to_text_def)

lemma to_text_Null [simp]: "to_text rt Null = None" "to_text rt Undefined = None"
  by (simp_all add: to_text_def)

lemma to_text_of_text [simp]: "to_text rt (of_text v) = v"
  by (cases v) simp_all

lemma truthy_to_text: "truthy v \<Longrightarrow> \<exists>s. to_text rt v = Some s"
  by (cases v rule: truthy.cases) (auto simp: to_text_def split: option.splits)

lemma mset_order_by_id_desc: "mset (order_by_id_desc rows) = mset rows"
  by (simp add: order_by_id_desc_def)

lemma set_order_by_id_desc [simp]: "set (order_by_id_desc rows) = set rows"
  by (simp add: order_by_id_desc_def)

section \<open>The next transaction id\<close>

lemma getNextTransactionId_exact:
  assumes "fault_free w" and "\<forall>t\<in>set (transactions w). \<bar>t_id t\<bar> < 2 ^ 53"
  shows "getNextTransactionId w = (Inr (Fin (of_int (next_id w))), settle w)"
proof (cases "transactions w = []")
  case True
  with assms(1) show ?thesis
    using num_add_int [of 0 1]
    by (simp add: getNextTransactionId_def db_call_fault_free next_id_def)
next
  case False
  let ?m = "Max (t_id ` set (transactions w))"
  have "?m \<in> t_id ` set (transactions w)" using False by (intro Max_in) simp_all
  with assms(2) have b: "\<bar>?m\<bar> < 2 ^ 53" by auto
  then have f: "fl (of_int ?m) = Fin (of_int ?m)" by (intro fl_int) simp
  have s: "num_add (Fin (of_int ?m)) (Fin 1) = Fin (of_int (?m + 1))"
    using num_add_int [of ?m 1] b by simp
  have z: "?m = 0 \<Longrightarrow> num_add (Fin 0) (Fin 1) = Fin (of_int (?m + 1))"
    using num_add_int [of 0 1] by simp
  show ?thesis
    using assms(1) False s z
    by (simp add: getNextTransactionId_def db_call_fault_free next_id_def max_id_Max f
        del: num_add.simps)
qed

text \<open>
  Claim C2, as stated, fails: what \<^verbatim>\<open>getNextTransactionId\<close> adds 1 to is a double.
  On a ledger whose greatest id is \<open>2^53\<close> it resolves to \<open>2^53\<close>, an id of the ledger,
  and not to \<open>2^53 + 1\<close>.
\<close>

theorem C2_counterexample:
  "fst (getNextTransactionId (empty_world\<lparr>transactions := [sale 9007199254740992]\<rparr>))
     = Inr (Fin 9007199254740992)
   \<and> next_id (empty_world\<lparr>transactions := [sale 9007199254740992]\<rparr>) = 9007199254740993
   \<and> map t_id (transactions (empty_world\<lparr>transactions := [sale 9007199254740992]\<rparr>))
     = [9007199254740992]"
proof -
  have "num_add (Fin 9007199254740992) (Fin 1) = Fin 9007199254740992"
    using fl_tie by simp
  then show ?thesis
    by (simp add: getNextTransactionId_def db_call_def empty_world_def sale_def next_id_def
        fl_2_53 del: num_add.simps)
qed

text \<open>
  Claim C2, amended. When the driver reports no error and every id of the ledger is
  below \<open>2^53\<close> in magnitude, \<^verbatim>\<open>getNextTransactionId\<close> resolves to the greatest id of
  the ledger, or 0 for the empty ledger, plus 1: it is 1 on the empty ledger and
  \<open>n + 1\<close> when the ids of the ledger are \<open>1..n\<close>.
\<close>

theorem C2_next_transaction_id:
  assumes "fault_free w" and "\<forall>t\<in>set (transactions w). \<bar>t_id t\<bar> < 2 ^ 53"
  shows "fst (getNextTransactionId w) =
           Inr (Fin (of_int
             ((if transactions w = [] then 0 else Max (t_id ` set (transactions w))) + 1)))
         \<and> (transactions w = [] \<longrightarrow> fst (getNextTransactionId w) = Inr (Fin 1))
         \<and> (\<forall>n\<ge>0. t_id ` set (transactions w) = {1..n} \<longrightarrow>
               fst (getNextTransactionId w) = Inr (Fin (of_int (n + 1))))"
proof -
  have main: "fst (getNextTransactionId w) =
           Inr (Fin (of_int
             ((if transactions w = [] then 0 else Max (t_id ` set (transactions w))) + 1)))"
    using getNextTransactionId_exact [OF assms] by (simp add: next_id_def)
  have "fst (getNextTransactionId w) = Inr (Fin (of_int (n + 1)))"
    if "0 \<le> n" "t_id ` set (transactions w) = {1..n}" for n
  proof (cases "transactions w = []")
    case True
    with that have "n = 0" by auto
    with main True show ?thesis by simp
  next
    case False
    with that have "1 \<le> n" by (cases "n = 0") auto
    then have "Max {1..n} = n" by (simp add: Max_eq_iff)
    with main False that show ?thesis by simp
  qed
  with main show ?thesis by simp
qed

theorem C2_witness:
  "fault_free empty_world \<and> fst (getNextTransactionId empty_world) = Inr (Fin 1)
   \<and> fault_free (empty_world\<lparr>transactions := [sale 1, sale 2]\<rparr>)
   \<and> list_all (\<lambda>t. \<bar>t_id t\<bar> < 2 ^ 53)
       (transactions (empty_world\<lparr>transactions := [sale 1, sale 2]\<rparr>))
   \<and> fst (getNextTransactionId (empty_world\<lparr>transactions := [sale 1, sale 2]\<rparr>)) = Inr (Fin 3)"
proof -
  let ?w = "empty_world\<lparr>transactions := [sale 1, sale 2]\<rparr>"
  have a: "fault_free empty_world" by (simp add: fault_free_def empty_world_def)
  have a': "\<forall>t\<in>set (transactions empty_world). \<bar>t_id t\<bar> < 2 ^ 53"
    by (simp add: empty_world_def)
  have b: "fault_free ?w" by (simp add: fault_free_def empty_world_def)
  have b': "\<forall>t\<in>set (transactions ?w). \<bar>t_id t\<bar> < 2 ^ 53" by (simp add: sale_def)
  have c: "t_id ` set (transactions ?w) = {1..2}" by (auto simp: sale_def)
  from C2_next_transaction_id [OF a a'] C2_next_transaction_id [OF b b'] a b b' c
  show ?thesis by (simp add: empty_world_def sale_def)
qed

section \<open>A transaction without items\<close>

text \<open>
  Claim C9. When the \<^verbatim>\<open>items\<close> field of the body is missing or is the empty list,
  \<^verbatim>\<open>POST /transactions\<close> answers 400 and the state is the one before the request: no
  statement has run, the next transaction id is the same and the ledger is unchanged.
\<close>

theorem C9_no_items:
  assumes "field (body req) ''items'' = Undefined \<or> field (body req) ''items'' = Arr []"
  shows "post_transactions rt clk req w =
           (Response 400 (JsonBody (Obj [(''error'', Str ''No items in transaction'')])) [], w)
         \<and> getNextTransactionId (snd (post_transactions rt clk req w)) = getNextTransactionId w
         \<and> transactions (snd (post_transactions rt clk req w)) = transactions w"
  using assms by (auto simp: post_transactions_def no_items_def json_def)

theorem C9_witness:
  "field (body bare_request) ''items'' = Undefined
   \<and> fst (post_transactions sample_runtime sample_clock bare_request (shop None))
       = Response 400 (JsonBody (Obj [(''error'', Str ''No items in transaction'')])) []
   \<and> snd (post_transactions sample_runtime sample_clock bare_request (shop None)) = shop None"
proof -
  have a: "field (body bare_request) ''items'' = Undefined" by (simp add: bare_request_def field_def)
  then have "field (body bare_request) ''items'' = Undefined \<or> field (body bare_request) ''items'' = Arr []" by simp
  from C9_no_items [OF this, of sample_runtime sample_clock "shop None"] a show ?thesis by simp
qed

section \<open>Operations on a product that is not stored\<close>

text \<open>
  Claim C8, as stated, fails: on a store without the product, \<^verbatim>\<open>updateProduct\<close> and
  \<^verbatim>\<open>deleteProduct\<close> resolve and leave the store as it was.
\<close>

theorem C8_counterexample:
  "updateProduct sample_runtime ''404'' (Str ''Lamp'') Null Null Null Null empty_world
     = (Inr (), empty_world)
   \<and> deleteProduct ''404'' empty_world = (Inr (), empty_world)"
  by (simp add: updateProduct_def deleteProduct_def db_call_def empty_world_def)

text \<open>
  Claim C8, amended. For an id with no stored product and a driver that reports no
  error, the store operations \<^verbatim>\<open>updateProduct\<close> and \<^verbatim>\<open>deleteProduct\<close> resolve and
  change no product; it is the two routes that answer 404, having looked the product up
  first, and they change no product either.
\<close>

theorem C8_missing_product:
  assumes "i \<notin> set (map p_id (products w))" and "fault_free w"
  shows "fst (updateProduct rt i title description price stock img w) = Inr ()
         \<and> products (snd (updateProduct rt i title description price stock img w)) = products w
         \<and> fst (deleteProduct i w) = Inr ()
         \<and> products (snd (deleteProduct i w)) = products w
         \<and> (params_id req = i \<longrightarrow>
              fst (post_products_id rt req w) = Response 404 (TextBody ''Product not found'') []
              \<and> products (snd (post_products_id rt req w)) = products w
              \<and> fst (delete_products_id rt req w)
                  = Response 404 (JsonBody (Obj [(''error'', Str ''Product not found'')])) []
              \<and> snd (delete_products_id rt req w) = settle w)"
proof -
  have u: "updateProduct rt i title description price stock img w = (Inr (), settle w)"
    using assms by (simp add: updateProduct_def db_call_fault_free)
  have d: "deleteProduct i w = (Inr (), settle w\<lparr>products := products w\<rparr>)"
    using assms by (simp add: deleteProduct_def db_call_fault_free filter_other_ids)
  have ff: "fault_free (upload_single req w)"
    using assms(2) by (simp add: upload_single_def fault_free_def split: option.splits)
  have pr: "products (upload_single req w) = products w"
    by (simp add: upload_single_def split: option.splits)
  have r1: "post_products_id rt req w = (send 404 ''Product not found'', settle (upload_single req w))"
    if "params_id req = i"
    using that assms(1) ff pr
    by (simp add: post_products_id_def getProductById_def db_call_fault_free find_None_ids Let_def)
  have r2: "delete_products_id rt req w
              = (json 404 (Obj [(''error'', Str ''Product not found'')]), settle w)"
    if "params_id req = i"
    using that assms
    by (simp add: delete_products_id_def getProductById_def db_call_fault_free find_None_ids Let_def)
  from u d r1 r2 pr show ?thesis by (simp add: send_def json_def)
qed

theorem C8_witness:
  "''404'' \<notin> set (map p_id (products (shop None))) \<and> fault_free (shop None)
   \<and> params_id (bare_request\<lparr>params_id := ''404''\<rparr>) = ''404''
   \<and> fst (updateProduct sample_runtime ''404'' (Str ''Lamp'') Null Null Null Null (shop None)) = Inr ()
   \<and> fst (deleteProduct ''404'' (shop None)) = Inr ()
   \<and> products (snd (deleteProduct ''404'' (shop None))) = [lamp None]
   \<and> fst (post_products_id sample_runtime (bare_request\<lparr>params_id := ''404''\<rparr>) (shop None))
       = Response 404 (TextBody ''Product not found'') []
   \<and> fst (delete_products_id sample_runtime (bare_request\<lparr>params_id := ''404''\<rparr>) (shop None))
       = Response 404 (JsonBody (Obj [(''error'', Str ''Product not found'')])) []"
proof -
  have a: "''404'' \<notin> set (map p_id (products (shop None)))"
    by (simp add: shop_def lamp_def)
  have b: "fault_free (shop None)" by (simp add: fault_free_def shop_def)
  have c: "products (shop None) = [lamp None]" by (simp add: shop_def)
  from C8_missing_product [OF a b, of sample_runtime "Str ''Lamp''" Null Null Null Null
       "bare_request\<lparr>params_id := ''404''\<rparr>"] a b c
  show ?thesis by simp
qed

section \<open>Listing by owner\<close>

text \<open>
  Claim C4, as stated, fails for the empty filter string: the listing returns every
  product, here one owned by \<^verbatim>\<open>alice\<close>, and not the products whose owner is the empty
  string.
\<close>

theorem C4_counterexample:
  "fst (getAllProducts sample_runtime (Str []) (shop (Some ''alice''))) = Inr [lamp (Some ''alice'')]
   \<and> p_owner (lamp (Some ''alice'')) = Some ''alice''"
  by (simp add: getAllProducts_def db_call_def shop_def lamp_def)

text \<open>
  Claim C4, amended. For every non-empty owner filter string and a driver that reports
  no error, listing products returns exactly the stored products whose owner is that
  string, character for character, and listing transactions returns exactly the stored
  transactions whose owner is that string (each with its JSON fields parsed, by id
  descending); without a filter (\<^verbatim>\<open>null\<close>, \<^verbatim>\<open>undefined\<close> or the empty string)
  both return all records.
\<close>

theorem C4_owner_filter:
  assumes "f \<noteq> []" and "fault_free w"
  shows "fst (getAllProducts rt (Str f) w) = Inr (filter (\<lambda>p. p_owner p = Some f) (products w))
         \<and> fst (getAllTransactions rt (Str f) w)
             = Inr (map parse_row
                     (order_by_id_desc (filter (\<lambda>t. t_owner t = Some f) (transactions w))))
         \<and> mset (order_by_id_desc (filter (\<lambda>t. t_owner t = Some f) (transactions w)))
             = mset (filter (\<lambda>t. t_owner t = Some f) (transactions w))
         \<and> fst (getAllProducts rt Null w) = Inr (products w)
         \<and> fst (getAllProducts rt Undefined w) = Inr (products w)
         \<and> fst (getAllProducts rt (Str []) w) = Inr (products w)
         \<and> fst (getAllTransactions rt Null w) = Inr (map parse_row (order_by_id_desc (transactions w)))
         \<and> fst (getAllTransactions rt Undefined w)
             = Inr (map parse_row (order_by_id_desc (transactions w)))
         \<and> fst (getAllTransactions rt (Str []) w)
             = Inr (map parse_row (order_by_id_desc (transactions w)))
         \<and> mset (order_by_id_desc (transactions w)) = mset (transactions w)"
  using assms
  by (simp add: getAllProducts_def getAllTransactions_def db_call_fault_free
      mset_order_by_id_desc)

theorem C4_witness:
  "''alice'' \<noteq> [] \<and> fault_free (shop (Some ''alice''))
   \<and> fst (getAllProducts sample_runtime (Str ''alice'') (shop (Some ''alice'')))
       = Inr [lamp (Some ''alice'')]
   \<and> fst (getAllProducts sample_runtime (Str ''Alice'') (shop (Some ''alice''))) = Inr []
   \<and> fst (getAllProducts sample_runtime (Str ''ali'') (shop (Some ''alice''))) = Inr []
   \<and> fst (getAllProducts sample_runtime Null (shop (Some ''alice''))) = Inr [lamp (Some ''alice'')]
   \<and> fst (getAllProducts sample_runtime (Str []) (shop (Some ''alice'')))
       = Inr [lamp (Some ''alice'')]
   \<and> fst (getAllTransactions sample_runtime (Str ''bob'')
             (empty_world\<lparr>transactions := [sale 1, (sale 2)\<lparr>t_owner := Some ''bob''\<rparr>]\<rparr>))
       = Inr [parse_row ((sale 2)\<lparr>t_owner := Some ''bob''\<rparr>)]
   \<and> fst (getAllTransactions sample_runtime (Str [])
             (empty_world\<lparr>transactions := [sale 1, (sale 2)\<lparr>t_owner := Some ''bob''\<rparr>]\<rparr>))
       = Inr [parse_row ((sale 2)\<lparr>t_owner := Some ''bob''\<rparr>), parse_row (sale 1)]"
proof -
  have b: "fault_free (shop (Some ''alice''))" by (simp add: fault_free_def shop_def)
  have c: "products (shop (Some ''alice'')) = [lamp (Some ''alice'')]" by (simp add: shop_def)
  have d: "p_owner (lamp (Some ''alice'')) = Some ''alice''" by (simp add: lamp_def)
  let ?l = "empty_world\<lparr>transactions := [sale 1, (sale 2)\<lparr>t_owner := Some ''bob''\<rparr>]\<rparr>"
  have e: "fault_free ?l" by (simp add: fault_free_def empty_world_def)
  have g: "order_by_id_desc [sale 1, (sale 2)\<lparr>t_owner := Some ''bob''\<rparr>]
             = [(sale 2)\<lparr>t_owner := Some ''bob''\<rparr>, sale 1]"
    "order_by_id_desc [(sale 2)\<lparr>t_owner := Some ''bob''\<rparr>] = [(sale 2)\<lparr>t_owner := Some ''bob''\<rparr>]"
    by (simp_all add: order_by_id_desc_def sale_def)
  have h: "t_owner (sale 1) = Some ''alice''" by (simp add: sale_def)
  from C4_owner_filter [OF _ e, of "''bob''" sample_runtime] g h
  have t: "fst (getAllTransactions sample_runtime (Str ''bob'') ?l)
             = Inr [parse_row ((sale 2)\<lparr>t_owner := Some ''bob''\<rparr>)]
           \<and> fst (getAllTransactions sample_runtime (Str []) ?l)
             = Inr [parse_row ((sale 2)\<lparr>t_owner := Some ''bob''\<rparr>), parse_row (sale 1)]"
    by simp
  from C4_owner_filter [OF _ b, of "''alice''" sample_runtime]
       C4_owner_filter [OF _ b, of "''Alice''" sample_runtime]
       C4_owner_filter [OF _ b, of "''ali''" sample_runtime] b c d t
  show ?thesis by simp
qed

section \<open>Who may delete a product\<close>



text \<open>
  Claim C1 at a request that names no user (no query parameter, no header, no cookie),
  so that the requester is \<^verbatim>\<open>null\<close>. The product is owned by the user whose name is
  the four letters \<^verbatim>\<open>null\<close>: its owner is not null and differs from the resolved
  identity, yet the route answers 200, removes the product and removes its image file,
  because \<^verbatim>\<open>String(null)\<close> is that name. The same request against the same product
  owned by \<^verbatim>\<open>alice\<close> answers 403 and changes nothing.
\<close>

theorem C1_owner_named_null:
  "ownerCandidate sample_runtime bare_request = Inr Null
   \<and> find (\<lambda>p. p_id p = params_id bare_request) (products (shop (Some ''null'')))
       = Some (lamp (Some ''null''))
   \<and> p_owner (lamp (Some ''null'')) = Some ''null''
   \<and> delete_products_id sample_runtime bare_request (shop (Some ''null''))
       = (Response 200 (JsonBody (Obj [(''ok'', Bool True)])) [], empty_world)
   \<and> delete_products_id sample_runtime bare_request (shop (Some ''alice''))
       = (Response 403 (JsonBody (Obj [(''error'', Str ''Forbidden'')])) [], shop (Some ''alice''))"
  by (simp add: delete_products_id_def getProductById_def deleteProduct_def db_call_def
      shop_def lamp_def bare_request_def ownerCandidate_def field_def header_def
      parseCookies_def cookie_value_def js_or_def unlink_image_def json_def empty_world_def
      forbidden_def)

section \<open>A failing statement, route by route\<close>

lemma js_get_truthy: "truthy v \<Longrightarrow> \<exists>x. js_get v name = Inr x"
  by (cases v) simp_all

lemma find_user_None:
  "(find (\<lambda>u. u_username u = Some s) us = None) = (Some s \<notin> set (map u_username us))"
  by (induction us) auto

lemma first_fault_get_products:
  "faults w = Some err # fs \<Longrightarrow> fst (get_products rt req w) = json 200 (Arr [])"
  by (simp add: get_products_def getAllProducts_def db_call_fault split: sum.splits)

lemma first_fault_get_transactions:
  "faults w = Some err # fs \<Longrightarrow> fst (get_transactions rt req w) = json 200 (Arr [])"
  by (simp add: get_transactions_def getAllTransactions_def db_call_fault split: sum.splits)

lemma first_fault_post_login:
  "faults w = Some err # fs \<Longrightarrow> fst (post_login rt req w) = redirect ''/?error=server''"
  by (simp add: post_login_def findUserByUsername_def db_call_fault Let_def)

lemma first_fault_post_register:
  "faults w = Some err # fs \<Longrightarrow> fst (post_register rt req w) = server_error_text"
  by (simp add: post_register_def findUserByUsername_def db_call_fault Let_def)

lemma first_fault_post_products:
  "faults w = Some err # fs \<Longrightarrow> fst (post_products rt clk req w) = server_error_text"
  by (simp add: post_products_def createProduct_def db_call_fault Let_def split: sum.splits)

lemma first_fault_post_products_id:
  "faults w = Some err # fs \<Longrightarrow> fst (post_products_id rt req w) = server_error_text"
  by (simp add: post_products_id_def getProductById_def db_call_fault Let_def)

lemma first_fault_delete_products_id:
  "faults w = Some err # fs \<Longrightarrow> fst (delete_products_id rt req w) = server_error_json"
  by (simp add: delete_products_id_def getProductById_def db_call_fault Let_def)

lemma post_transactions_no_items:
  "\<not> has_items req \<Longrightarrow> post_transactions rt clk req w = (no_items, w)"
  using js_get_truthy [of "field (body req) ''items''" "''length''"]
  by (auto simp: post_transactions_def has_items_def Let_def split: sum.splits)

lemma first_fault_post_transactions:
  "faults w = Some err # fs \<Longrightarrow> has_items req \<Longrightarrow>
   fst (post_transactions rt clk req w) = server_error_json"
  by (simp add: post_transactions_def has_items_def getNextTransactionId_def db_call_fault
      Let_def split: sum.splits)

lemma second_fault_post_transactions:
  "faults w = None # Some err # fs \<Longrightarrow> has_items req \<Longrightarrow>
   fst (post_transactions rt clk req w) = server_error_json"
  by (simp add: post_transactions_def has_items_def getNextTransactionId_def
      createTransaction_def db_call_pass db_call_fault Let_def split: sum.splits)

lemma second_fault_post_register:
  assumes "faults w = None # Some err # fs"
  shows "fst (post_register rt req w) =
           (if registered rt (field (body req) ''username'') w
            then send 200 ''Username already exists. Please choose another.''
            else server_error_text)"
proof (cases "to_text rt (field (body req) ''username'')")
  case None
  with assms show ?thesis
    by (simp add: post_register_def findUserByUsername_def createUser_def registered_def
        db_call_pass db_call_fault Let_def)
next
  case (Some s)
  show ?thesis
  proof (cases "find (\<lambda>u. u_username u = Some s) (users w)")
    case None
    with assms Some find_user_None [of s "users w"] show ?thesis
      by (simp add: post_register_def findUserByUsername_def createUser_def registered_def
          db_call_pass db_call_fault Let_def)
  next
    case (Some u)
    with assms \<open>to_text rt (field (body req) ''username'') = Some s\<close>
      find_user_None [of s "users w"] show ?thesis
      by (simp add: post_register_def findUserByUsername_def createUser_def registered_def
          db_call_pass db_call_fault Let_def)
  qed
qed

lemma second_fault_post_products_id:
  assumes "faults w = None # Some err # fs"
  shows "fst (post_products_id rt req w) =
           (case find (\<lambda>p. p_id p = params_id req) (products w) of
              None \<Rightarrow> send 404 ''Product not found''
            | Some p \<Rightarrow> server_error_text)"
proof -
  have pr: "products (upload_single req w) = products w"
    by (simp add: upload_single_def split: option.splits)
  show ?thesis
  proof (cases "find (\<lambda>p. p_id p = params_id req) (products w)")
    case None
    with assms pr show ?thesis
      by (simp add: post_products_id_def getProductById_def db_call_pass Let_def)
  next
    case (Some p)
    with assms pr show ?thesis
      by (simp add: post_products_id_def getProductById_def updateProduct_def db_call_pass
          db_call_fault Let_def split: option.splits)
  qed
qed

lemma second_fault_delete_products_id:
  assumes "faults w = None # Some err # fs"
  shows "fst (delete_products_id rt req w) =
           (case find (\<lambda>p. p_id p = params_id req) (products w) of
              None \<Rightarrow> json 404 (Obj [(''error'', Str ''Product not found'')])
            | Some p \<Rightarrow>
               (case ownerCandidate rt req of
                  Inl e \<Rightarrow> server_error_json
                | Inr u \<Rightarrow>
                   (case forbidden rt p u of
                      Inl e \<Rightarrow> server_error_json
                    | Inr True \<Rightarrow> json 403 (Obj [(''error'', Str ''Forbidden'')])
                    | Inr False \<Rightarrow> server_error_json)))"
  using assms
  by (simp add: delete_products_id_def getProductById_def deleteProduct_def db_call_pass
      db_call_fault Let_def split: option.splits sum.splits bool.splits)

section \<open>What a route answers when a statement fails\<close>

text \<open>
  Claim C7, as stated, fails: when the statement of a listing route fails, the answer
  is 200 with the empty array, and when the statement of the login route fails, the
  answer is a redirection to \<^verbatim>\<open>/?error=server\<close>; neither is a 500.
\<close>

theorem C7_counterexample:
  "fst (get_products sample_runtime bare_request
          ((shop None)\<lparr>faults := [Some ''SQLITE_IOERR: disk I/O error'']\<rparr>))
     = Response 200 (JsonBody (Arr [])) []
   \<and> fst (get_transactions sample_runtime bare_request
          ((shop None)\<lparr>faults := [Some ''SQLITE_IOERR: disk I/O error'']\<rparr>))
     = Response 200 (JsonBody (Arr [])) []
   \<and> fst (post_login sample_runtime bare_request
          ((shop None)\<lparr>faults := [Some ''SQLITE_IOERR: disk I/O error'']\<rparr>))
     = Response 302 (Location ''/?error=server'') []"
  by (simp add: first_fault_get_products first_fault_get_transactions first_fault_post_login
      json_def redirect_def)

text \<open>
  Claim C7, amended. When the first statement of a route fails, whatever the error:
  creating a product, updating a product and registering answer 500 with the text
  \<^verbatim>\<open>Server error\<close>; deleting a product answers 500 with \<^verbatim>\<open>{error: 'Server error'}\<close>,
  and so does creating a transaction for a request that has items; the two listings
  answer 200 with the empty array and the login redirects to \<^verbatim>\<open>/?error=server\<close>.
  When the first statement runs and the second fails, whatever the error: updating a
  stored product and registering a new username answer 500 with the text
  \<^verbatim>\<open>Server error\<close>; deleting a stored product that the requester may delete and
  creating a transaction for a request that has items answer 500 with
  \<^verbatim>\<open>{error: 'Server error'}\<close>. A route that answers before it reaches the failing
  statement answers as without the failure: 400 for a request without items, 404 for a
  product that is not stored, 403 for a requester who may not delete, and the message
  that the username exists. No answer holds the error.
\<close>

theorem C7_failing_statement:
  "(faults w = Some err # fs \<longrightarrow>
      fst (post_products rt clk req w) = Response 500 (TextBody ''Server error'') []
      \<and> fst (post_products_id rt req w) = Response 500 (TextBody ''Server error'') []
      \<and> fst (post_register rt req w) = Response 500 (TextBody ''Server error'') []
      \<and> fst (delete_products_id rt req w)
          = Response 500 (JsonBody (Obj [(''error'', Str ''Server error'')])) []
      \<and> (has_items req \<longrightarrow>
            fst (post_transactions rt clk req w)
              = Response 500 (JsonBody (Obj [(''error'', Str ''Server error'')])) [])
      \<and> (\<not> has_items req \<longrightarrow>
            fst (post_transactions rt clk req w)
              = Response 400 (JsonBody (Obj [(''error'', Str ''No items in transaction'')])) [])
      \<and> fst (get_products rt req w) = Response 200 (JsonBody (Arr [])) []
      \<and> fst (get_transactions rt req w) = Response 200 (JsonBody (Arr [])) []
      \<and> fst (post_login rt req w) = Response 302 (Location ''/?error=server'') [])
   \<and> (faults w = None # Some err # fs \<longrightarrow>
      (\<forall>p. find (\<lambda>p. p_id p = params_id req) (products w) = Some p \<longrightarrow>
            fst (post_products_id rt req w) = Response 500 (TextBody ''Server error'') [])
      \<and> (find (\<lambda>p. p_id p = params_id req) (products w) = None \<longrightarrow>
            fst (post_products_id rt req w) = Response 404 (TextBody ''Product not found'') [])
      \<and> (\<not> registered rt (field (body req) ''username'') w \<longrightarrow>
            fst (post_register rt req w) = Response 500 (TextBody ''Server error'') [])
      \<and> (registered rt (field (body req) ''username'') w \<longrightarrow>
            fst (post_register rt req w)
              = Response 200 (TextBody ''Username already exists. Please choose another.'') [])
      \<and> (\<forall>p u. find (\<lambda>p. p_id p = params_id req) (products w) = Some p
                \<and> ownerCandidate rt req = Inr u \<and> forbidden rt p u = Inr False \<longrightarrow>
            fst (delete_products_id rt req w)
              = Response 500 (JsonBody (Obj [(''error'', Str ''Server error'')])) [])
      \<and> (\<forall>p u. find (\<lambda>p. p_id p = params_id req) (products w) = Some p
                \<and> ownerCandidate rt req = Inr u \<and> forbidden rt p u = Inr True \<longrightarrow>
            fst (delete_products_id rt req w)
              = Response 403 (JsonBody (Obj [(''error'', Str ''Forbidden'')])) [])
      \<and> (find (\<lambda>p. p_id p = params_id req) (products w) = None \<longrightarrow>
            fst (delete_products_id rt req w)
              = Response 404 (JsonBody (Obj [(''error'', Str ''Product not found'')])) [])
      \<and> (has_items req \<longrightarrow>
            fst (post_transactions rt clk req w)
              = Response 500 (JsonBody (Obj [(''error'', Str ''Server error'')])) [])
      \<and> (\<not> has_items req \<longrightarrow>
            fst (post_transactions rt clk req w)
              = Response 400 (JsonBody (Obj [(''error'', Str ''No items in transaction'')])) []))"
proof (intro conjI impI allI)
  assume f: "faults w = Some err # fs"
  show "fst (post_products rt clk req w) = Response 500 (TextBody ''Server error'') []"
    using first_fault_post_products [OF f] by (simp add: server_error_text_def send_def)
  show "fst (post_products_id rt req w) = Response 500 (TextBody ''Server error'') []"
    using first_fault_post_products_id [OF f] by (simp add: server_error_text_def send_def)
  show "fst (post_register rt req w) = Response 500 (TextBody ''Server error'') []"
    using first_fault_post_register [OF f] by (simp add: server_error_text_def send_def)
  show "fst (delete_products_id rt req w)
          = Response 500 (JsonBody (Obj [(''error'', Str ''Server error'')])) []"
    using first_fault_delete_products_id [OF f] by (simp add: server_error_json_def json_def)
  show "fst (post_transactions rt clk req w)
          = Response 500 (JsonBody (Obj [(''error'', Str ''Server error'')])) []"
    if "has_items req"
    using first_fault_post_transactions [OF f that] by (simp add: server_error_json_def json_def)
  show "fst (post_transactions rt clk req w)
          = Response 400 (JsonBody (Obj [(''error'', Str ''No items in transaction'')])) []"
    if "\<not> has_items req"
    using post_transactions_no_items [OF that] by (simp add: no_items_def json_def)
  show "fst (get_products rt req w) = Response 200 (JsonBody (Arr [])) []"
    using first_fault_get_products [OF f] by (simp add: json_def)
  show "fst (get_transactions rt req w) = Response 200 (JsonBody (Arr [])) []"
    using first_fault_get_transactions [OF f] by (simp add: json_def)
  show "fst (post_login rt req w) = Response 302 (Location ''/?error=server'') []"
    using first_fault_post_login [OF f] by (simp add: redirect_def)
next
  fix p
  assume s: "faults w = None # Some err # fs"
    and "find (\<lambda>p. p_id p = params_id req) (products w) = Some p"
  then show "fst (post_products_id rt req w) = Response 500 (TextBody ''Server error'') []"
    using second_fault_post_products_id [OF s, of rt req]
    by (simp add: server_error_text_def send_def)
next
  assume s: "faults w = None # Some err # fs"
    and "find (\<lambda>p. p_id p = params_id req) (products w) = None"
  then show "fst (post_products_id rt req w) = Response 404 (TextBody ''Product not found'') []"
    using second_fault_post_products_id [OF s, of rt req] by (simp add: send_def)
next
  assume s: "faults w = None # Some err # fs"
    and "\<not> registered rt (field (body req) ''username'') w"
  then show "fst (post_register rt req w) = Response 500 (TextBody ''Server error'') []"
    using second_fault_post_register [OF s, of rt req]
    by (simp add: server_error_text_def send_def)
next
  assume s: "faults w = None # Some err # fs"
    and "registered rt (field (body req) ''username'') w"
  then show "fst (post_register rt req w)
               = Response 200 (TextBody ''Username already exists. Please choose another.'') []"
    using second_fault_post_register [OF s, of rt req] by (simp add: send_def)
next
  fix p u
  assume s: "faults w = None # Some err # fs"
    and "find (\<lambda>p. p_id p = params_id req) (products w) = Some p
         \<and> ownerCandidate rt req = Inr u \<and> forbidden rt p u = Inr False"
  then show "fst (delete_products_id rt req w)
               = Response 500 (JsonBody (Obj [(''error'', Str ''Server error'')])) []"
    using second_fault_delete_products_id [OF s, of rt req]
    by (simp add: server_error_json_def json_def)
next
  fix p u
  assume s: "faults w = None # Some err # fs"
    and "find (\<lambda>p. p_id p = params_id req) (products w) = Some p
         \<and> ownerCandidate rt req = Inr u \<and> forbidden rt p u = Inr True"
  then show "fst (delete_products_id rt req w)
               = Response 403 (JsonBody (Obj [(''error'', Str ''Forbidden'')])) []"
    using second_fault_delete_products_id [OF s, of rt req] by (simp add: json_def)
next
  assume s: "faults w = None # Some err # fs"
    and "find (\<lambda>p. p_id p = params_id req) (products w) = None"
  then show "fst (delete_products_id rt req w)
               = Response 404 (JsonBody (Obj [(''error'', Str ''Product not found'')])) []"
    using second_fault_delete_products_id [OF s, of rt req] by (simp add: json_def)
next
  assume s: "faults w = None # Some err # fs" and h: "has_items req"
  show "fst (post_transactions rt clk req w)
          = Response 500 (JsonBody (Obj [(''error'', Str ''Server error'')])) []"
    using second_fault_post_transactions [OF s h] by (simp add: server_error_json_def json_def)
next
  assume s: "faults w = None # Some err # fs" and h: "\<not> has_items req"
  show "fst (post_transactions rt clk req w)
          = Response 400 (JsonBody (Obj [(''error'', Str ''No items in transaction'')])) []"
    using post_transactions_no_items [OF h] by (simp add: no_items_def json_def)
qed

theorem C7_witness:
  "faults ((shop None)\<lparr>faults := [Some ''SQLITE_IOERR: disk I/O error'']\<rparr>)
     = Some ''SQLITE_IOERR: disk I/O error'' # []
   \<and> has_items (bare_request\<lparr>body := [(''items'', two_items)]\<rparr>)
   \<and> fst (post_transactions sample_runtime sample_clock
            (bare_request\<lparr>body := [(''items'', two_items)]\<rparr>)
            ((shop None)\<lparr>faults := [Some ''SQLITE_IOERR: disk I/O error'']\<rparr>))
       = Response 500 (JsonBody (Obj [(''error'', Str ''Server error'')])) []
   \<and> \<not> has_items bare_request
   \<and> fst (post_transactions sample_runtime sample_clock bare_request
            ((shop None)\<lparr>faults := [Some ''SQLITE_IOERR: disk I/O error'']\<rparr>))
       = Response 400 (JsonBody (Obj [(''error'', Str ''No items in transaction'')])) []
   \<and> fst (delete_products_id sample_runtime bare_request
            ((shop None)\<lparr>faults := [Some ''SQLITE_IOERR: disk I/O error'']\<rparr>))
       = Response 500 (JsonBody (Obj [(''error'', Str ''Server error'')])) []
   \<and> fst (post_products_id sample_runtime bare_request
            ((shop None)\<lparr>faults := [Some ''SQLITE_IOERR: disk I/O error'']\<rparr>))
       = Response 500 (TextBody ''Server error'') []
   \<and> faults ((shop None)\<lparr>faults := [None, Some ''SQLITE_BUSY: database is locked'']\<rparr>)
     = None # Some ''SQLITE_BUSY: database is locked'' # []
   \<and> find (\<lambda>p. p_id p = params_id bare_request)
        (products ((shop None)\<lparr>faults := [None, Some ''SQLITE_BUSY: database is locked'']\<rparr>))
       = Some (lamp None)
   \<and> ownerCandidate sample_runtime bare_request = Inr Null
   \<and> forbidden sample_runtime (lamp None) Null = Inr False
   \<and> \<not> registered sample_runtime (field (body bare_request) ''username'')
          ((shop None)\<lparr>faults := [None, Some ''SQLITE_BUSY: database is locked'']\<rparr>)
   \<and> fst (post_products_id sample_runtime bare_request
            ((shop None)\<lparr>faults := [None, Some ''SQLITE_BUSY: database is locked'']\<rparr>))
       = Response 500 (TextBody ''Server error'') []
   \<and> fst (post_register sample_runtime bare_request
            ((shop None)\<lparr>faults := [None, Some ''SQLITE_BUSY: database is locked'']\<rparr>))
       = Response 500 (TextBody ''Server error'') []
   \<and> fst (delete_products_id sample_runtime bare_request
            ((shop None)\<lparr>faults := [None, Some ''SQLITE_BUSY: database is locked'']\<rparr>))
       = Response 500 (JsonBody (Obj [(''error'', Str ''Server error'')])) []
   \<and> fst (post_transactions sample_runtime sample_clock
            (bare_request\<lparr>body := [(''items'', two_items)]\<rparr>)
            ((shop None)\<lparr>faults := [None, Some ''SQLITE_BUSY: database is locked'']\<rparr>))
       = Response 500 (JsonBody (Obj [(''error'', Str ''Server error'')])) []
   \<and> fst (post_transactions sample_runtime sample_clock bare_request
            ((shop None)\<lparr>faults := [None, Some ''SQLITE_BUSY: database is locked'']\<rparr>))
       = Response 400 (JsonBody (Obj [(''error'', Str ''No items in transaction'')])) []
   \<and> find (\<lambda>p. p_id p = params_id (bare_request\<lparr>params_id := ''404''\<rparr>))
        (products ((shop None)\<lparr>faults := [None, Some ''SQLITE_BUSY: database is locked'']\<rparr>))
       = None
   \<and> fst (post_products_id sample_runtime (bare_request\<lparr>params_id := ''404''\<rparr>)
            ((shop None)\<lparr>faults := [None, Some ''SQLITE_BUSY: database is locked'']\<rparr>))
       = Response 404 (TextBody ''Product not found'') []
   \<and> fst (delete_products_id sample_runtime (bare_request\<lparr>params_id := ''404''\<rparr>)
            ((shop None)\<lparr>faults := [None, Some ''SQLITE_BUSY: database is locked'']\<rparr>))
       = Response 404 (JsonBody (Obj [(''error'', Str ''Product not found'')])) []
   \<and> forbidden sample_runtime (lamp (Some ''alice'')) Null = Inr True
   \<and> fst (delete_products_id sample_runtime bare_request
            ((shop (Some ''alice''))\<lparr>faults := [None, Some ''SQLITE_BUSY: database is locked'']\<rparr>))
       = Response 403 (JsonBody (Obj [(''error'', Str ''Forbidden'')])) []
   \<and> registered sample_runtime
        (field (body (bare_request\<lparr>body := [(''username'', Str ''alice'')]\<rparr>)) ''username'')
        (empty_world\<lparr>users := [\<lparr>u_username = Some ''alice'', u_password = ''pw'',
                                  u_email = ''a@example.org''\<rparr>],
                      faults := [None, Some ''SQLITE_BUSY: database is locked'']\<rparr>)
   \<and> fst (post_register sample_runtime (bare_request\<lparr>body := [(''username'', Str ''alice'')]\<rparr>)
            (empty_world\<lparr>users := [\<lparr>u_username = Some ''alice'', u_password = ''pw'',
                                      u_email = ''a@example.org''\<rparr>],
                          faults := [None, Some ''SQLITE_BUSY: database is locked'']\<rparr>))
       = Response 200 (TextBody ''Username already exists. Please choose another.'') []"
proof -
  let ?e = "''SQLITE_IOERR: disk I/O error''"
  let ?b = "''SQLITE_BUSY: database is locked''"
  let ?w1 = "(shop None)\<lparr>faults := [Some ?e]\<rparr>"
  let ?w2 = "(shop None)\<lparr>faults := [None, Some ?b]\<rparr>"
  let ?w3 = "(shop (Some ''alice''))\<lparr>faults := [None, Some ?b]\<rparr>"
  let ?w4 = "empty_world\<lparr>users := [\<lparr>u_username = Some ''alice'', u_password = ''pw'',
                                      u_email = ''a@example.org''\<rparr>],
                          faults := [None, Some ?b]\<rparr>"
  let ?ri = "bare_request\<lparr>body := [(''items'', two_items)]\<rparr>"
  let ?r4 = "bare_request\<lparr>params_id := ''404''\<rparr>"
  let ?ru = "bare_request\<lparr>body := [(''username'', Str ''alice'')]\<rparr>"
  have f1: "faults ?w1 = Some ?e # []" by simp
  have f2: "faults ?w2 = None # Some ?b # []" by simp
  have f3: "faults ?w3 = None # Some ?b # []" by simp
  have f4: "faults ?w4 = None # Some ?b # []" by simp
  have hi: "has_items ?ri" by (simp add: has_items_def field_def two_items_def)
  have hn: "\<not> has_items bare_request" by (simp add: has_items_def field_def bare_request_def)
  have p2: "find (\<lambda>p. p_id p = params_id bare_request) (products ?w2) = Some (lamp None)"
    by (simp add: shop_def lamp_def bare_request_def)
  have p3: "find (\<lambda>p. p_id p = params_id bare_request) (products ?w3) = Some (lamp (Some ''alice''))"
    by (simp add: shop_def lamp_def bare_request_def)
  have p4: "find (\<lambda>p. p_id p = params_id ?r4) (products ?w2) = None"
    by (simp add: shop_def lamp_def)
  have oc: "ownerCandidate sample_runtime bare_request = Inr Null"
    by (simp add: ownerCandidate_def field_def header_def bare_request_def parseCookies_def
        cookie_value_def js_or_def)
  have fb: "forbidden sample_runtime (lamp None) Null = Inr False"
    "forbidden sample_runtime (lamp (Some ''alice'')) Null = Inr True"
    by (simp_all add: forbidden_def lamp_def)
  have nr: "\<not> registered sample_runtime (field (body bare_request) ''username'') ?w2"
    by (simp add: registered_def field_def bare_request_def)
  have rg: "registered sample_runtime (field (body ?ru) ''username'') ?w4"
    by (simp add: registered_def field_def)
  note A = C7_failing_statement [of ?w1 ?e "[]" sample_runtime sample_clock ?ri]
  note B = C7_failing_statement [of ?w1 ?e "[]" sample_runtime sample_clock bare_request]
  note C = C7_failing_statement [of ?w2 ?b "[]" sample_runtime sample_clock bare_request]
  note D = C7_failing_statement [of ?w2 ?b "[]" sample_runtime sample_clock ?ri]
  note E = C7_failing_statement [of ?w2 ?b "[]" sample_runtime sample_clock ?r4]
  note F = C7_failing_statement [of ?w3 ?b "[]" sample_runtime sample_clock bare_request]
  note G = C7_failing_statement [of ?w4 ?b "[]" sample_runtime sample_clock ?ru]
  have 1: "fst (post_transactions sample_runtime sample_clock ?ri ?w1)
             = Response 500 (JsonBody (Obj [(''error'', Str ''Server error'')])) []"
    using A f1 hi by blast
  have 2: "fst (post_transactions sample_runtime sample_clock bare_request ?w1)
             = Response 400 (JsonBody (Obj [(''error'', Str ''No items in transaction'')])) []"
       "fst (delete_products_id sample_runtime bare_request ?w1)
             = Response 500 (JsonBody (Obj [(''error'', Str ''Server error'')])) []"
       "fst (post_products_id sample_runtime bare_request ?w1)
             = Response 500 (TextBody ''Server error'') []"
    using B f1 hn by blast+
  have 3: "fst (post_products_id sample_runtime bare_request ?w2)
             = Response 500 (TextBody ''Server error'') []"
       "fst (post_register sample_runtime bare_request ?w2)
             = Response 500 (TextBody ''Server error'') []"
       "fst (delete_products_id sample_runtime bare_request ?w2)
             = Response 500 (JsonBody (Obj [(''error'', Str ''Server error'')])) []"
       "fst (post_transactions sample_runtime sample_clock bare_request ?w2)
             = Response 400 (JsonBody (Obj [(''error'', Str ''No items in transaction'')])) []"
    using C f2 p2 oc fb(1) nr hn by blast+
  have 4: "fst (post_transactions sample_runtime sample_clock ?ri ?w2)
             = Response 500 (JsonBody (Obj [(''error'', Str ''Server error'')])) []"
    using D f2 hi by blast
  have 5: "fst (post_products_id sample_runtime ?r4 ?w2)
             = Response 404 (TextBody ''Product not found'') []"
       "fst (delete_products_id sample_runtime ?r4 ?w2)
             = Response 404 (JsonBody (Obj [(''error'', Str ''Product not found'')])) []"
    using E f2 p4 by blast+
  have oc3: "ownerCandidate sample_runtime bare_request = Inr Null" by (rule oc)
  have 6: "fst (delete_products_id sample_runtime bare_request ?w3)
             = Response 403 (JsonBody (Obj [(''error'', Str ''Forbidden'')])) []"
    using F f3 p3 oc3 fb(2) by blast
  have 7: "fst (post_register sample_runtime ?ru ?w4)
             = Response 200 (TextBody ''Username already exists. Please choose another.'') []"
    using G f4 rg by blast
  from f1 hi 1 hn 2 f2 p2 oc fb nr 3 4 p4 5 6 rg 7 show ?thesis by (intro conjI)
qed

section \<open>Updating a product\<close>

lemma to_num_of_sql:
  "stock_settled rt p \<Longrightarrow> to_num rt (of_sql (p_stock p)) = p_stock p"
proof (cases "p_stock p")
  case SqlNull
  then show ?thesis by (simp add: to_num_def)
next
  case (SqlInt i)
  assume "stock_settled rt p"
  with SqlInt have "\<bar>i\<bar> \<le> 2 ^ 53" by (simp add: stock_settled_def)
  with SqlInt show ?thesis by (simp add: fl_int to_num_int)
next
  case (SqlReal d)
  assume "stock_settled rt p"
  with SqlReal have d: "d \<noteq> NaN" "as_integer d = None" by (simp_all add: stock_settled_def)
  then have "int32 d = None" using int32_as_integer [of d] by (cases "int32 d") auto
  with d SqlReal show ?thesis by (simp add: to_num_def)
next
  case (SqlText s)
  assume "stock_settled rt p"
  with SqlText show ?thesis by (simp add: stock_settled_def to_num_def)
qed

lemma find_map_update:
  assumes "find (\<lambda>q. p_id q = i) ps = Some p" and "\<And>q. p_id (f q) = p_id q"
  shows "find (\<lambda>q. p_id q = i) (map (\<lambda>q. if p_id q = i then f q else q) ps) = Some (f p)"
  using assms by (induction ps) (auto split: if_splits)

lemma unique_id_row:
  assumes "distinct (map p_id ps)" and "find (\<lambda>q. p_id q = i) ps = Some p"
    and "q \<in> set ps" and "p_id q = i"
  shows "q = p"
proof -
  from assms(2) have "p_id p = i" "p \<in> set ps" using find_Some_id by auto
  moreover from assms(1) have "inj_on p_id (set ps)" by (simp add: distinct_map)
  ultimately show ?thesis using assms(3,4) by (auto dest: inj_onD)
qed

lemma post_products_id_products:
  assumes "find (\<lambda>q. p_id q = params_id req) (products w) = Some p"
  shows "products (snd (post_products_id rt req w)) = products w
         \<or> (\<exists>t. to_text rt (if field (body req) ''title'' \<noteq> Undefined
                              then field (body req) ''title'' else Str (p_title p)) = Some t
                 \<and> products (snd (post_products_id rt req w))
                     = map (\<lambda>q. if p_id q = params_id req then merged rt req p t q else q)
                         (products w))"
proof -
  let ?i = "params_id req"
  let ?w0 = "upload_single req w"
  have p0: "products ?w0 = products w" by (simp add: upload_single_def split: option.splits)
  have mem: "?i \<in> set (map p_id (products w))"
    using find_Some_id [OF assms] by force
  show ?thesis
  proof (cases rule: db_call_cases [of ?w0 "\<lambda>w. (Inr (find (\<lambda>p. p_id p = ?i) (products w)), w)"])
    case (fails err fs)
    then show ?thesis using p0 by (simp add: post_products_id_def getProductById_def Let_def)
  next
    case runs
    let ?w2 = "case req_file req of None \<Rightarrow> settle ?w0 | Some f \<Rightarrow> unlink_image p (settle ?w0)"
    have p2: "products ?w2 = products w"
      using p0 by (simp add: unlink_image_def split: option.splits)
    let ?run = "\<lambda>w. if ?i \<notin> set (map p_id (products w)) then (Inr (), w)
       else
         (case to_text rt (if field (body req) ''title'' \<noteq> Undefined
                              then field (body req) ''title'' else Str (p_title p)) of
            None \<Rightarrow> (Inl ''SQLITE_CONSTRAINT: NOT NULL constraint failed: products.title'', w)
          | Some t \<Rightarrow>
             (Inr (),
              w\<lparr>products :=
                  map (\<lambda>q. if p_id q = ?i then merged rt req p t q else q) (products w)\<rparr>))"
    have R: "post_products_id rt req w =
       (case db_call ?run ?w2 of (Inl err, w3) \<Rightarrow> (server_error_text, w3)
                | (Inr u, w3) \<Rightarrow> (redirect ''/inventory.html'', w3))"
      using runs assms p0 unfolding merged_def
      by (simp add: post_products_id_def getProductById_def updateProduct_def Let_def
          split del: if_split cong: if_cong)
    show ?thesis
    proof (cases rule: db_call_cases [of ?w2 ?run])
      case (fails err fs)
      then show ?thesis using p2 R by simp
    next
      case runs
      then show ?thesis using p2 R mem
        by (cases "to_text rt (if field (body req) ''title'' \<noteq> Undefined
                              then field (body req) ''title'' else Str (p_title p))") simp_all
    qed
  qed
qed

lemma merged_id [simp]: "p_id (merged rt req p t q) = p_id q"
  by (simp add: merged_def)


text \<open>
  Claim C5, as stated, fails: a stock that the request does not carry is read from the
  row, as a double, and written back. A product stored with the stock \<open>2^53 + 1\<close> (the
  creation form stores the text of that number as this integer) has the stock \<open>2^53\<close>
  after an update that carries a title only.
\<close>

theorem C5_counterexample:
  "field (body (bare_request\<lparr>body := [(''title'', Str ''Desk lamp'')]\<rparr>)) ''stock'' = Undefined
   \<and> to_num sample_runtime
        (of_sql (p_stock ((lamp (Some ''alice''))\<lparr>p_stock := SqlInt 9007199254740993\<rparr>)))
       = SqlInt 9007199254740992
   \<and> post_products_id sample_runtime (bare_request\<lparr>body := [(''title'', Str ''Desk lamp'')]\<rparr>)
        ((shop (Some ''alice''))
           \<lparr>products := [(lamp (Some ''alice''))\<lparr>p_stock := SqlInt 9007199254740993\<rparr>]\<rparr>)
       = (Response 302 (Location ''/inventory.html'') [],
          (shop (Some ''alice''))
            \<lparr>products := [(lamp (Some ''alice''))
                             \<lparr>p_title := ''Desk lamp'', p_stock := SqlInt 9007199254740992\<rparr>]\<rparr>)"
proof -
  have n: "to_num sample_runtime (Num (Fin 9007199254740992)) = SqlInt 9007199254740992"
    using to_num_int [of 9007199254740992 sample_runtime] by simp
  show ?thesis
    by (simp add: post_products_id_def getProductById_def updateProduct_def db_call_def
        upload_single_def shop_def lamp_def bare_request_def field_def redirect_def fl_tie n)
qed

text \<open>
  Claim C5, amended. For every stored product, whatever the route answers, the product
  is still stored afterwards with its id and owner, and each of title, description,
  price and image that the request does not carry keeps the value stored before; so
  does the stock that the request does not carry when the stored one is NULL, an
  integer of magnitude at most \<open>2^53\<close>, a real that is no such integer, or a text that
  is no number. When the driver reports no error and the request carries the stock and
  nothing else, the route redirects to the inventory and the table is the one before
  with the stock of that product replaced by what the column stores for the stock of
  the request: title, description, price, image and owner of the product, every other
  product and the uploaded files are unchanged.
\<close>

theorem C5_update_frame:
  assumes "find (\<lambda>q. p_id q = params_id req) (products w) = Some p"
  shows "(\<exists>p'. find (\<lambda>q. p_id q = params_id req) (products (snd (post_products_id rt req w)))
                 = Some p'
              \<and> p_id p' = p_id p \<and> p_owner p' = p_owner p
              \<and> (field (body req) ''title'' = Undefined \<longrightarrow> p_title p' = p_title p)
              \<and> (field (body req) ''description'' = Undefined
                   \<longrightarrow> p_description p' = p_description p)
              \<and> (field (body req) ''price'' = Undefined \<longrightarrow> p_price p' = p_price p)
              \<and> (field (body req) ''stock'' = Undefined \<and> stock_settled rt p
                   \<longrightarrow> p_stock p' = p_stock p)
              \<and> (req_file req = None \<longrightarrow> p_image p' = p_image p))
         \<and> (fault_free w \<and> unique_ids w
             \<and> field (body req) ''stock'' \<noteq> Undefined
             \<and> field (body req) ''title'' = Undefined
             \<and> field (body req) ''description'' = Undefined
             \<and> field (body req) ''price'' = Undefined
             \<and> req_file req = None
             \<longrightarrow> fst (post_products_id rt req w) = Response 302 (Location ''/inventory.html'') []
               \<and> products (snd (post_products_id rt req w))
                   = map (\<lambda>q. if p_id q = params_id req
                               then q\<lparr>p_stock := to_num rt (field (body req) ''stock'')\<rparr>
                               else q) (products w)
               \<and> uploads (snd (post_products_id rt req w)) = uploads w)"
proof (intro conjI impI)
  let ?T = "if field (body req) ''title'' \<noteq> Undefined
            then field (body req) ''title'' else Str (p_title p)"
  from post_products_id_products [OF assms, of rt]
  consider (same) "products (snd (post_products_id rt req w)) = products w"
    | (written) t where "to_text rt ?T = Some t"
        "products (snd (post_products_id rt req w))
           = map (\<lambda>q. if p_id q = params_id req then merged rt req p t q else q) (products w)"
    by blast
  then show "\<exists>p'. find (\<lambda>q. p_id q = params_id req) (products (snd (post_products_id rt req w)))
                 = Some p'
              \<and> p_id p' = p_id p \<and> p_owner p' = p_owner p
              \<and> (field (body req) ''title'' = Undefined \<longrightarrow> p_title p' = p_title p)
              \<and> (field (body req) ''description'' = Undefined
                   \<longrightarrow> p_description p' = p_description p)
              \<and> (field (body req) ''price'' = Undefined \<longrightarrow> p_price p' = p_price p)
              \<and> (field (body req) ''stock'' = Undefined \<and> stock_settled rt p
                   \<longrightarrow> p_stock p' = p_stock p)
              \<and> (req_file req = None \<longrightarrow> p_image p' = p_image p)"
  proof cases
    case same
    with assms show ?thesis by simp
  next
    case written
    have "find (\<lambda>q. p_id q = params_id req) (products (snd (post_products_id rt req w)))
            = Some (merged rt req p t p)"
      unfolding written(2) by (rule find_map_update [OF assms]) simp
    moreover have "field (body req) ''title'' = Undefined \<longrightarrow> t = p_title p"
      using written(1) by auto
    ultimately show ?thesis
      by (auto simp: merged_def to_num_of_sql)
  qed
next
  assume h: "fault_free w \<and> unique_ids w
             \<and> field (body req) ''stock'' \<noteq> Undefined
             \<and> field (body req) ''title'' = Undefined
             \<and> field (body req) ''description'' = Undefined
             \<and> field (body req) ''price'' = Undefined
             \<and> req_file req = None"
  then have u0: "upload_single req w = w" by (simp add: upload_single_def)
  from h have ff: "fault_free (settle w)" by (simp add: fault_free_settle)
  have mem: "params_id req \<in> set (map p_id (products w))"
    using find_Some_id [OF assms] by force
  have R: "post_products_id rt req w =
     (redirect ''/inventory.html'',
      (settle (settle w))\<lparr>products :=
         map (\<lambda>q. if p_id q = params_id req
                   then q\<lparr>p_title := p_title p, p_description := p_description p,
                          p_price := p_price p,
                          p_stock := to_num rt (field (body req) ''stock''),
                          p_image := p_image p\<rparr>
                   else q) (products w)\<rparr>)"
    using h assms ff mem
    by (simp add: post_products_id_def getProductById_def updateProduct_def u0
        db_call_fault_free Let_def)
  have M: "map (\<lambda>q. if p_id q = params_id req
                   then q\<lparr>p_title := p_title p, p_description := p_description p,
                          p_price := p_price p,
                          p_stock := to_num rt (field (body req) ''stock''),
                          p_image := p_image p\<rparr>
                   else q) (products w)
         = map (\<lambda>q. if p_id q = params_id req
                     then q\<lparr>p_stock := to_num rt (field (body req) ''stock'')\<rparr>
                     else q) (products w)"
  proof (rule map_cong [OF refl])
    fix q assume q: "q \<in> set (products w)"
    show "(if p_id q = params_id req
           then q\<lparr>p_title := p_title p, p_description := p_description p,
                  p_price := p_price p,
                  p_stock := to_num rt (field (body req) ''stock''),
                  p_image := p_image p\<rparr>
           else q)
        = (if p_id q = params_id req
           then q\<lparr>p_stock := to_num rt (field (body req) ''stock'')\<rparr> else q)"
    proof (cases "p_id q = params_id req")
      case True
      with h q assms have "q = p" by (auto simp: unique_ids_def intro: unique_id_row)
      with True show ?thesis by simp
    next
      case False
      then show ?thesis by simp
    qed
  qed
  show "fst (post_products_id rt req w) = Response 302 (Location ''/inventory.html'') []"
    by (simp add: R redirect_def)
  show "products (snd (post_products_id rt req w))
          = map (\<lambda>q. if p_id q = params_id req
                      then q\<lparr>p_stock := to_num rt (field (body req) ''stock'')\<rparr>
                      else q) (products w)"
    by (simp add: R M)
  show "uploads (snd (post_products_id rt req w)) = uploads w"
    by (simp add: R)
qed


theorem C5_witness:
  "find (\<lambda>q. p_id q = params_id (bare_request\<lparr>body := [(''stock'', Num (Fin 7))]\<rparr>))
        (products (shop (Some ''alice''))) = Some (lamp (Some ''alice''))
   \<and> fault_free (shop (Some ''alice'')) \<and> unique_ids (shop (Some ''alice''))
   \<and> stock_settled sample_runtime (lamp (Some ''alice''))
   \<and> fst (post_products_id sample_runtime (bare_request\<lparr>body := [(''stock'', Num (Fin 7))]\<rparr>)
            (shop (Some ''alice'')))
       = Response 302 (Location ''/inventory.html'') []
   \<and> products (snd (post_products_id sample_runtime
                       (bare_request\<lparr>body := [(''stock'', Num (Fin 7))]\<rparr>)
                       (shop (Some ''alice''))))
       = [(lamp (Some ''alice''))\<lparr>p_stock := SqlInt 7\<rparr>]
   \<and> find (\<lambda>q. p_id q = params_id bare_request)
        (products (snd (post_products_id sample_runtime bare_request (shop (Some ''alice'')))))
       = Some (lamp (Some ''alice''))"
proof -
  let ?r = "bare_request\<lparr>body := [(''stock'', Num (Fin 7))]\<rparr>"
  let ?w = "shop (Some ''alice'')"
  let ?p = "lamp (Some ''alice'')"
  have a: "find (\<lambda>q. p_id q = params_id ?r) (products ?w) = Some ?p"
    by (simp add: shop_def lamp_def bare_request_def)
  have a': "find (\<lambda>q. p_id q = params_id bare_request) (products ?w) = Some ?p"
    by (simp add: shop_def lamp_def bare_request_def)
  have b: "fault_free ?w" "unique_ids ?w" "stock_settled sample_runtime ?p"
    by (simp_all add: fault_free_def unique_ids_def stock_settled_def shop_def lamp_def)
  have c: "field (body ?r) ''stock'' = Num (Fin 7)" "field (body ?r) ''title'' = Undefined"
    "field (body ?r) ''description'' = Undefined" "field (body ?r) ''price'' = Undefined"
    "req_file ?r = None"
    by (simp_all add: field_def bare_request_def)
  have d: "field (body bare_request) ''stock'' = Undefined"
    "field (body bare_request) ''title'' = Undefined"
    "field (body bare_request) ''description'' = Undefined"
    "field (body bare_request) ''price'' = Undefined"
    "req_file bare_request = None"
    by (simp_all add: field_def bare_request_def)
  have e: "products ?w = [?p]" "p_id ?p = params_id ?r"
    by (simp_all add: shop_def lamp_def bare_request_def)
  have n: "to_num sample_runtime (Num (Fin 7)) = SqlInt 7"
    using to_num_int [of 7 sample_runtime] by simp
  from C5_update_frame [OF a, of sample_runtime] b c e n
  have 1: "fst (post_products_id sample_runtime ?r ?w) = Response 302 (Location ''/inventory.html'') []
      \<and> products (snd (post_products_id sample_runtime ?r ?w)) = [?p\<lparr>p_stock := SqlInt 7\<rparr>]"
    by simp
  from C5_update_frame [OF a', of sample_runtime] b d
  obtain p' where p': "find (\<lambda>q. p_id q = params_id bare_request)
        (products (snd (post_products_id sample_runtime bare_request ?w))) = Some p'"
     "p_id p' = p_id ?p" "p_owner p' = p_owner ?p" "p_title p' = p_title ?p"
     "p_description p' = p_description ?p" "p_price p' = p_price ?p" "p_stock p' = p_stock ?p"
     "p_image p' = p_image ?p"
    by auto
  then have "p' = ?p" by (cases p') (simp add: lamp_def)
  with p'(1) 1 a b show ?thesis by simp
qed

section \<open>Creating a transaction\<close>

lemma ToNumber_or:
  "ToNumber rt (js_or v (Num (Fin d))) = (if truthy v then ToNumber rt v else Inr (Fin d))"
  by (simp add: js_or_def)

text \<open>The callbacks add the amount and the quantity of a line, or throw as reading it does.\<close>

lemma add_line_total_amount:
  "add_line_total rt acc item =
     (case line_amount rt item of Inl e \<Rightarrow> Inl e | Inr x \<Rightarrow> Inr (num_add acc x))"
  by (simp add: add_line_total_def line_amount_def property_or_def ToNumber_or
      split: sum.splits)

lemma add_line_count_quantity:
  "add_line_count rt acc item =
     (case line_quantity rt item of Inl e \<Rightarrow> Inl e | Inr x \<Rightarrow> Inr (num_add acc x))"
  by (simp add: add_line_count_def line_quantity_def property_or_def ToNumber_or
      split: sum.splits)

lemma reduce_from_collect:
  assumes "\<And>acc item. f acc item = (case g item of Inl e \<Rightarrow> Inl e | Inr x \<Rightarrow> Inr (num_add acc x))"
  shows "reduce_from f items acc =
           (case collect (map g items) of
              Inl e \<Rightarrow> Inl e
            | Inr xs \<Rightarrow> Inr (foldl num_add acc xs))"
proof (induction items arbitrary: acc)
  case Nil
  show ?case by simp
next
  case (Cons item items)
  show ?case
  proof (cases "g item")
    case (Inl e)
    then show ?thesis by (simp add: assms [of acc item])
  next
    case (Inr x)
    then have "reduce_from f (item # items) acc = reduce_from f items (num_add acc x)"
      by (simp add: assms [of acc item])
    with Inr show ?thesis
      by (cases "collect (map g items)") (simp_all add: Cons.IH)
  qed
qed

lemma reduce_total: "reduce (add_line_total rt) (Arr items) = spec_total rt items"
  unfolding spec_total_def sum_in_order_def
  by (simp add: reduce_from_collect [of "add_line_total rt" "line_amount rt"]
      add_line_total_amount)

lemma reduce_count: "reduce (add_line_count rt) (Arr items) = spec_itemCount rt items"
  unfolding spec_itemCount_def sum_in_order_def
  by (simp add: reduce_from_collect [of "add_line_count rt" "line_quantity rt"]
      add_line_count_quantity)


lemma getNextTransactionId_runs:
  "fault_free w \<Longrightarrow> \<exists>nid. getNextTransactionId w = (Inr nid, settle w)"
  by (simp add: getNextTransactionId_def db_call_fault_free)

text \<open>
  What the route does once the lines are read, the owner is resolved and the next id
  is computed, when the driver reports no error: it answers 200 and appends a row when
  the id is accepted and new, and answers 500 otherwise.
\<close>

lemma post_transactions_created:
  assumes "field (body req) ''items'' = Arr items" and "items \<noteq> []"
    and "spec_total rt items = Inr tot" and "spec_itemCount rt items = Inr cnt"
    and "ownerCandidate rt req = Inr owner" and "fault_free w"
    and "getNextTransactionId w = (Inr nid, settle w)"
    and "rowid rt (transactions w) (bind (Num nid)) = Some i"
    and "i \<notin> t_id ` set (transactions w)"
  shows "\<exists>td row.
           post_transactions rt clk req w
             = (json 200 (Obj [(''ok'', Bool True), (''transaction'', transaction_object td)]),
                (settle (settle w))\<lparr>transactions := transactions w @ [row]\<rparr>)
           \<and> td_id td = nid \<and> td_owner td = owner \<and> td_items td = Arr items
           \<and> td_total td = tot \<and> td_itemCount td = cnt
           \<and> td_proofUploaded td = truthy (field (body req) ''proofUploaded'')
           \<and> td_location td = js_or (field (body req) ''location'') Null
           \<and> t_id row = i \<and> t_owner row = to_text rt owner
           \<and> t_items row = Json (json_norm (Arr items))
           \<and> t_total row = to_real rt (Num tot)
           \<and> t_itemCount row = to_num rt (Num cnt)
           \<and> t_proofUploaded row = (if truthy (field (body req) ''proofUploaded'') then 1 else 0)
           \<and> t_location row = (if truthy (field (body req) ''location'')
                                then Some (Json (json_norm (field (body req) ''location'')))
                                else None)"
proof -
  let ?td = "\<lparr>td_id = nid, td_owner = owner, td_items = Arr items,
               td_total = tot, td_itemCount = cnt,
               td_paymentMethod = js_or (field (body req) ''paymentMethod'') (Str ''CASH''),
               td_proofUploaded = truthy (field (body req) ''proofUploaded''),
               td_proofFilename = js_or (field (body req) ''proofFilename'') Null,
               td_location = js_or (field (body req) ''location'') Null,
               td_timestamp = js_or (field (body req) ''timestamp'') (Str (isoString clk)),
               td_date = localeString clk\<rparr>"
  have ff: "fault_free (settle w)" by (rule fault_free_settle [OF assms(6)])
  have loc: "truthy v \<Longrightarrow> v \<noteq> Undefined" for v by auto
  let ?row = "\<lparr>t_id = i,
                 t_owner = to_text rt owner,
                 t_items = Json (json_norm (Arr items)),
                 t_total = to_real rt (Num tot),
                 t_itemCount = to_num rt (Num cnt),
                 t_paymentMethod = to_text rt (js_or (field (body req) ''paymentMethod'') (Str ''CASH'')),
                 t_proofUploaded = (if truthy (field (body req) ''proofUploaded'') then 1 else 0),
                 t_proofFilename = to_text rt (js_or (field (body req) ''proofFilename'') Null),
                 t_location = (if truthy (field (body req) ''location'')
                               then Some (Json (json_norm (field (body req) ''location'')))
                               else None),
                 t_timestamp = to_text rt (js_or (field (body req) ''timestamp'') (Str (isoString clk))),
                 t_date = Some (localeString clk)\<rparr>"
  have si: "JSON_stringify (Arr items) = Some (Json (json_norm (Arr items)))"
    by (simp add: JSON_stringify_def)
  have row: "createTransaction rt ?td (settle w)
               = (Inr ?td, (settle (settle w))\<lparr>transactions := transactions w @ [?row]\<rparr>)"
    using assms(8,9) unfolding createTransaction_def db_call_fault_free [OF ff]
    by (cases "truthy (field (body req) ''location'')")
      (simp_all add: si js_or_def JSON_stringify_def loc del: json_norm.simps bind.simps)
  have R: "post_transactions rt clk req w
             = (json 200 (Obj [(''ok'', Bool True), (''transaction'', transaction_object ?td)]),
                (settle (settle w))\<lparr>transactions := transactions w @ [?row]\<rparr>)"
    using assms(1-5,7) row
    by (simp add: post_transactions_def reduce_total reduce_count Let_def del: reduce.simps)
  show ?thesis
    by (intro exI [of _ ?td] exI [of _ ?row]) (simp add: R)
qed

lemma post_transactions_refused:
  assumes "field (body req) ''items'' = Arr items" and "items \<noteq> []"
    and "fault_free w"
    and "getNextTransactionId w = (Inr nid, settle w)"
    and "rowid rt (transactions w) (bind (Num nid)) = None
         \<or> (\<exists>i. rowid rt (transactions w) (bind (Num nid)) = Some i
                 \<and> i \<in> t_id ` set (transactions w))"
  shows "fst (post_transactions rt clk req w) = server_error_json"
proof -
  have ff: "fault_free (settle w)" by (rule fault_free_settle [OF assms(3)])
  have c: "\<exists>err. fst (createTransaction rt td (settle w)) = Inl err"
    if "td_id td = nid" for td
    using assms(5) that unfolding createTransaction_def db_call_fault_free [OF ff]
    by (auto simp del: bind.simps split: option.splits)
  show ?thesis
    using assms(1,2,4)
    apply (simp add: post_transactions_def reduce_total reduce_count Let_def del: reduce.simps
        split: sum.splits prod.splits)
    apply (intro allI impI conjI)
    using c apply (metis fst_conv sum.distinct(1) transactionData.select_convs(1))
    done
qed

text \<open>With ids below \<open>2^53\<close> the next id is the one of the specification, and it is new.\<close>

lemma next_id_fresh: "next_id w \<notin> t_id ` set (transactions w)"
proof (cases "transactions w = []")
  case True
  then show ?thesis by simp
next
  case False
  have "Max (t_id ` set (transactions w)) + 1 \<notin> t_id ` set (transactions w)"
  proof
    assume "Max (t_id ` set (transactions w)) + 1 \<in> t_id ` set (transactions w)"
    then have "Max (t_id ` set (transactions w)) + 1 \<le> Max (t_id ` set (transactions w))"
      by (intro Max_ge) simp_all
    then show False by simp
  qed
  with False show ?thesis by (simp add: next_id_def)
qed

lemma next_id_bound:
  assumes "\<forall>t\<in>set (transactions w). \<bar>t_id t\<bar> < 2 ^ 53"
  shows "\<bar>next_id w\<bar> \<le> 2 ^ 53"
proof (cases "transactions w = []")
  case True
  then show ?thesis by (simp add: next_id_def)
next
  case False
  then have "Max (t_id ` set (transactions w)) \<in> t_id ` set (transactions w)"
    by (intro Max_in) simp_all
  then obtain t where t: "t \<in> set (transactions w)" "t_id t = Max (t_id ` set (transactions w))"
    by (metis imageE)
  from assms t(1) have "\<bar>t_id t\<bar> < 2 ^ 53" by (rule bspec)
  then have "\<bar>t_id t + 1\<bar> \<le> 2 ^ 53" by (simp add: abs_le_iff abs_less_iff)
  with False t(2) show ?thesis unfolding next_id_def by (simp del: Max_less_iff)
qed

lemma post_transactions_ok:
  assumes "field (body req) ''items'' = Arr items" and "items \<noteq> []"
    and "spec_total rt items = Inr tot" and "spec_itemCount rt items = Inr cnt"
    and "ownerCandidate rt req = Inr owner" and "fault_free w"
    and "\<forall>t\<in>set (transactions w). \<bar>t_id t\<bar> < 2 ^ 53"
  shows "\<exists>td row.
           post_transactions rt clk req w
             = (json 200 (Obj [(''ok'', Bool True), (''transaction'', transaction_object td)]),
                (settle (settle w))\<lparr>transactions := transactions w @ [row]\<rparr>)
           \<and> td_id td = Fin (of_int (next_id w)) \<and> td_owner td = owner \<and> td_items td = Arr items
           \<and> td_total td = tot \<and> td_itemCount td = cnt
           \<and> td_proofUploaded td = truthy (field (body req) ''proofUploaded'')
           \<and> td_location td = js_or (field (body req) ''location'') Null
           \<and> t_id row = next_id w \<and> t_owner row = to_text rt owner
           \<and> t_items row = Json (json_norm (Arr items))
           \<and> t_total row = to_real rt (Num tot)
           \<and> t_itemCount row = to_num rt (Num cnt)
           \<and> t_proofUploaded row = (if truthy (field (body req) ''proofUploaded'') then 1 else 0)
           \<and> t_location row = (if truthy (field (body req) ''location'')
                                then Some (Json (json_norm (field (body req) ''location'')))
                                else None)"
  by (rule post_transactions_created [OF assms(1-6) getNextTransactionId_exact [OF assms(6,7)]
        rowid_int [OF next_id_bound [OF assms(7)]] next_id_fresh])

section \<open>Totals of a transaction\<close>




section \<open>The acting username of a request\<close>

lemma listing_username_rule:
  "parseCookies rt (map_of (headers req) ''cookie'') = Inr cookies \<Longrightarrow>
   listing_username rt req = Inr (first_truthy (from_query req) (from_header req) (from_cookie cookies))"
  by (simp add: listing_username_def first_truthy_def from_query_def from_header_def
      from_cookie_def js_or_def)

lemma ownerCandidate_rule:
  "parseCookies rt (map_of (headers req) ''cookie'') = Inr cookies \<Longrightarrow>
   ownerCandidate rt req = Inr (first_truthy (from_query req) (from_header req) (from_cookie cookies))"
  by (simp add: ownerCandidate_def first_truthy_def from_query_def from_header_def
      from_cookie_def js_or_def)

section \<open>A transaction is listed as it was created\<close>

lemma getAllTransactions_lists:
  assumes "fault_free w" and "row \<in> set (transactions w)" and "t_owner row = to_text rt owner"
  shows "\<exists>listed. getAllTransactions rt owner w = (Inr listed, settle w)
                  \<and> parse_row row \<in> set listed"
proof (cases "truthy (if owner = Undefined then Null else owner)")
  case False
  with assms show ?thesis
    by (simp add: getAllTransactions_def db_call_fault_free Let_def)
next
  case True
  then have o: "owner \<noteq> Undefined" and t: "truthy owner" by (auto split: if_splits)
  from truthy_to_text [OF t] obtain s where s: "to_text rt owner = Some s" by blast
  with assms o t show ?thesis
    by (simp add: getAllTransactions_def db_call_fault_free Let_def)
qed

lemma two_items_total:
  "spec_total rt [Obj [(''price'', Num (Fin 10)), (''qty'', Num (Fin 2))],
                  Obj [(''price'', Num (Fin 5)), (''qty'', Num (Fin 1))]] = Inr (Fin 25)"
  "spec_itemCount rt [Obj [(''price'', Num (Fin 10)), (''qty'', Num (Fin 2))],
                  Obj [(''price'', Num (Fin 5)), (''qty'', Num (Fin 1))]] = Inr (Fin 3)"
proof -
  have n: "num_mul (Fin 2) (Fin 10) = Fin 20" "num_mul (Fin 1) (Fin 5) = Fin 5"
    "num_add (Fin 0) (Fin 20) = Fin 20" "num_add (Fin 20) (Fin 5) = Fin 25"
    "num_add (Fin 0) (Fin 2) = Fin 2" "num_add (Fin 2) (Fin 1) = Fin 3"
    using num_mul_int [of 2 10] num_mul_int [of 1 5] num_add_int [of 0 20]
      num_add_int [of 20 5] num_add_int [of 0 2] num_add_int [of 2 1]
    by simp_all
  show "spec_total rt [Obj [(''price'', Num (Fin 10)), (''qty'', Num (Fin 2))],
                  Obj [(''price'', Num (Fin 5)), (''qty'', Num (Fin 1))]] = Inr (Fin 25)"
    by (simp add: spec_total_def line_amount_def property_or_def field_def sum_in_order_def n
        del: num_add.simps num_mul.simps)
  show "spec_itemCount rt [Obj [(''price'', Num (Fin 10)), (''qty'', Num (Fin 2))],
                  Obj [(''price'', Num (Fin 5)), (''qty'', Num (Fin 1))]] = Inr (Fin 3)"
    by (simp add: spec_itemCount_def line_quantity_def property_or_def field_def
        sum_in_order_def n del: num_add.simps num_mul.simps)
qed

text \<open>What the listing shows of a row stored for the two items.\<close>

lemma two_items_row:
  assumes "t_items row = Json (json_norm two_items)"
    and "t_total row = to_real rt (Num (Fin 25))"
    and "t_itemCount row = to_num rt (Num (Fin 3))"
    and "t_proofUploaded row = (if b then 1 else 0)"
    and "t_location row = (if truthy l then Some (Json (json_norm l)) else None)"
  shows "js_get (parse_row row) ''total'' = Inr (Num (Fin 25))
         \<and> js_get (parse_row row) ''itemCount'' = Inr (Num (Fin 3))
         \<and> js_get (parse_row row) ''items'' = Inr two_items
         \<and> js_get (parse_row row) ''location'' = Inr (if truthy l then json_norm l else Null)
         \<and> js_get (parse_row row) ''proofUploaded'' = Inr (Bool b)"
proof -
  have s: "to_real rt (Num (Fin 25)) = SqlReal (Fin 25)" "to_num rt (Num (Fin 3)) = SqlInt 3"
    using to_real_int [of 25 rt] to_num_int [of 3 rt] by simp_all
  have f: "fl 3 = Fin 3" "fl 1 = Fin 1" "fl 0 = Fin 0"
    using fl_int [of 3] fl_int [of 1] fl_int [of 0] by simp_all
  show ?thesis
    by (simp add: parse_row_def field_def assms s f two_items_def)
qed

text \<open>
  Claim C3. For a request with the items \<^verbatim>\<open>[{price:10,qty:2},{price:5,qty:1}]\<close>
  whose cookie header parses, and a driver that reports no error:
  when the ids of the ledger are below \<open>2^53\<close>, \<^verbatim>\<open>POST /transactions\<close> creates a
  transaction, and it is in the list that \<^verbatim>\<open>GET /transactions\<close> then returns to the
  same requester, under the id of the answer, with total 25 and item count 3, with its
  items and its location as structured values (the posted ones) and with
  \<^verbatim>\<open>proofUploaded\<close> as a boolean;
  and on every ledger, whenever \<^verbatim>\<open>POST /transactions\<close> answers that it has created
  a transaction, the ledger has one more row, which is in the list that
  \<^verbatim>\<open>GET /transactions\<close> then returns to the same requester with these values.
\<close>

theorem C3_round_trip:
  assumes "field (body req) ''items'' = two_items"
    and "parseCookies rt (map_of (headers req) ''cookie'') = Inr cookies"
    and "fault_free w"
  shows "((\<forall>t\<in>set (transactions w). \<bar>t_id t\<bar> < 2 ^ 53) \<longrightarrow>
          (\<exists>created listed w1 w2.
             post_transactions rt clk req w
               = (Response 200
                    (JsonBody (Obj [(''ok'', Bool True), (''transaction'', created)])) [], w1)
             \<and> get_transactions rt req w1 = (Response 200 (JsonBody (Arr listed)) [], w2)
             \<and> (\<exists>t \<in> set listed.
                   js_get t ''id'' = js_get created ''id''
                   \<and> js_get t ''total'' = Inr (Num (Fin 25))
                   \<and> js_get t ''itemCount'' = Inr (Num (Fin 3))
                   \<and> js_get t ''items'' = Inr two_items
                   \<and> js_get t ''location''
                       = Inr (if truthy (field (body req) ''location'')
                              then json_norm (field (body req) ''location'') else Null)
                   \<and> js_get t ''proofUploaded''
                       = Inr (Bool (truthy (field (body req) ''proofUploaded''))))))
         \<and> (\<forall>created w1.
               post_transactions rt clk req w
                 = (Response 200
                      (JsonBody (Obj [(''ok'', Bool True), (''transaction'', created)])) [], w1)
               \<longrightarrow>
               (\<exists>row listed w2.
                  transactions w1 = transactions w @ [row]
                  \<and> get_transactions rt req w1 = (Response 200 (JsonBody (Arr listed)) [], w2)
                  \<and> parse_row row \<in> set listed
                  \<and> js_get (parse_row row) ''total'' = Inr (Num (Fin 25))
                  \<and> js_get (parse_row row) ''itemCount'' = Inr (Num (Fin 3))
                  \<and> js_get (parse_row row) ''items'' = Inr two_items
                  \<and> js_get (parse_row row) ''location''
                      = Inr (if truthy (field (body req) ''location'')
                             then json_norm (field (body req) ''location'') else Null)
                  \<and> js_get (parse_row row) ''proofUploaded''
                      = Inr (Bool (truthy (field (body req) ''proofUploaded'')))))"
proof (intro conjI impI allI)
  let ?items = "[Obj [(''price'', Num (Fin 10)), (''qty'', Num (Fin 2))],
                 Obj [(''price'', Num (Fin 5)), (''qty'', Num (Fin 1))]]"
  let ?owner = "first_truthy (from_query req) (from_header req) (from_cookie cookies)"
  have i: "field (body req) ''items'' = Arr ?items" using assms(1) by (simp add: two_items_def)
  have l: "?items \<noteq> []" by simp
  have ti: "Arr ?items = two_items" by (simp add: two_items_def)
  have listing: "\<exists>listed. get_transactions rt req w1
                    = (Response 200 (JsonBody (Arr listed)) [], settle w1)
                  \<and> parse_row row \<in> set listed"
    if "w1 = (settle (settle w))\<lparr>transactions := transactions w @ [row]\<rparr>"
      and "t_owner row = to_text rt ?owner" for w1 row
  proof -
    have ff: "fault_free w1"
      using fault_free_settle [OF fault_free_settle [OF assms(3)]] that(1)
      by (simp add: fault_free_def)
    have "row \<in> set (transactions w1)" using that(1) by simp
    from getAllTransactions_lists [OF ff this that(2)]
    obtain listed where g: "getAllTransactions rt ?owner w1 = (Inr listed, settle w1)"
      "parse_row row \<in> set listed" by blast
    have "get_transactions rt req w1 = (Response 200 (JsonBody (Arr listed)) [], settle w1)"
      by (simp add: get_transactions_def listing_username_rule [OF assms(2)] g(1) json_def)
    with g(2) show ?thesis by blast
  qed
  {
    assume b: "\<forall>t\<in>set (transactions w). \<bar>t_id t\<bar> < 2 ^ 53"
    from post_transactions_ok [OF i l two_items_total ownerCandidate_rule [OF assms(2)]
           assms(3) b, of clk]
    obtain td row where p:
      "post_transactions rt clk req w
         = (json 200 (Obj [(''ok'', Bool True), (''transaction'', transaction_object td)]),
            (settle (settle w))\<lparr>transactions := transactions w @ [row]\<rparr>)"
      "td_id td = Fin (of_int (next_id w))" "t_id row = next_id w"
      "t_owner row = to_text rt ?owner"
      "t_items row = Json (json_norm (Arr ?items))"
      "t_total row = to_real rt (Num (Fin 25))"
      "t_itemCount row = to_num rt (Num (Fin 3))"
      "t_proofUploaded row = (if truthy (field (body req) ''proofUploaded'') then 1 else 0)"
      "t_location row = (if truthy (field (body req) ''location'')
                         then Some (Json (json_norm (field (body req) ''location''))) else None)"
      by blast
    let ?w1 = "(settle (settle w))\<lparr>transactions := transactions w @ [row]\<rparr>"
    from listing [OF refl p(4)] obtain listed where
      G: "get_transactions rt req ?w1 = (Response 200 (JsonBody (Arr listed)) [], settle ?w1)"
      and m: "parse_row row \<in> set listed" by blast
    have "fl (of_int (next_id w)) = Fin (of_int (next_id w))"
      by (rule fl_int [OF next_id_bound [OF b]])
    then have F1: "js_get (parse_row row) ''id'' = js_get (transaction_object td) ''id''"
      by (simp add: parse_row_def transaction_object_def field_def p(2,3))
    note F2 = two_items_row [OF p(5) [unfolded ti] p(6,7,8,9)]
    show "\<exists>created listed w1 w2.
             post_transactions rt clk req w
               = (Response 200
                    (JsonBody (Obj [(''ok'', Bool True), (''transaction'', created)])) [], w1)
             \<and> get_transactions rt req w1 = (Response 200 (JsonBody (Arr listed)) [], w2)
             \<and> (\<exists>t \<in> set listed.
                   js_get t ''id'' = js_get created ''id''
                   \<and> js_get t ''total'' = Inr (Num (Fin 25))
                   \<and> js_get t ''itemCount'' = Inr (Num (Fin 3))
                   \<and> js_get t ''items'' = Inr two_items
                   \<and> js_get t ''location''
                       = Inr (if truthy (field (body req) ''location'')
                              then json_norm (field (body req) ''location'') else Null)
                   \<and> js_get t ''proofUploaded''
                       = Inr (Bool (truthy (field (body req) ''proofUploaded''))))"
      apply (rule exI [of _ "transaction_object td"])
      apply (rule exI [of _ listed])
      apply (rule exI [of _ ?w1])
      apply (rule exI [of _ "settle ?w1"])
      using p(1) G m F1 F2 by (auto simp: json_def)
  }
  fix created w1
  assume ok: "post_transactions rt clk req w
                 = (Response 200
                      (JsonBody (Obj [(''ok'', Bool True), (''transaction'', created)])) [], w1)"
  from getNextTransactionId_runs [OF assms(3)]
  obtain nid where nid: "getNextTransactionId w = (Inr nid, settle w)" by blast
  have no: "fst (post_transactions rt clk req w) \<noteq> server_error_json"
    using ok by (simp add: server_error_json_def json_def)
  from post_transactions_refused [OF i l assms(3) nid, of rt clk] no
  obtain k where k: "rowid rt (transactions w) (bind (Num nid)) = Some k"
    "k \<notin> t_id ` set (transactions w)"
    by (cases "rowid rt (transactions w) (bind (Num nid))") auto
  from post_transactions_created [OF i l two_items_total ownerCandidate_rule [OF assms(2)]
         assms(3) nid k, of clk]
  obtain td row where p:
    "post_transactions rt clk req w
       = (json 200 (Obj [(''ok'', Bool True), (''transaction'', transaction_object td)]),
          (settle (settle w))\<lparr>transactions := transactions w @ [row]\<rparr>)"
    "t_owner row = to_text rt ?owner"
    "t_items row = Json (json_norm (Arr ?items))"
    "t_total row = to_real rt (Num (Fin 25))"
    "t_itemCount row = to_num rt (Num (Fin 3))"
    "t_proofUploaded row = (if truthy (field (body req) ''proofUploaded'') then 1 else 0)"
    "t_location row = (if truthy (field (body req) ''location'')
                       then Some (Json (json_norm (field (body req) ''location''))) else None)"
    by blast
  from ok p(1) have w1: "w1 = (settle (settle w))\<lparr>transactions := transactions w @ [row]\<rparr>"
    by simp
  from listing [OF w1 p(2)] obtain listed where
    G: "get_transactions rt req w1 = (Response 200 (JsonBody (Arr listed)) [], settle w1)"
    and m: "parse_row row \<in> set listed" by blast
  note F2 = two_items_row [OF p(3) [unfolded ti] p(4,5,6,7)]
  have tr: "transactions w1 = transactions w @ [row]" using w1 by simp
  show "\<exists>row listed w2.
          transactions w1 = transactions w @ [row]
          \<and> get_transactions rt req w1 = (Response 200 (JsonBody (Arr listed)) [], w2)
          \<and> parse_row row \<in> set listed
          \<and> js_get (parse_row row) ''total'' = Inr (Num (Fin 25))
          \<and> js_get (parse_row row) ''itemCount'' = Inr (Num (Fin 3))
          \<and> js_get (parse_row row) ''items'' = Inr two_items
          \<and> js_get (parse_row row) ''location''
              = Inr (if truthy (field (body req) ''location'')
                     then json_norm (field (body req) ''location'') else Null)
          \<and> js_get (parse_row row) ''proofUploaded''
              = Inr (Bool (truthy (field (body req) ''proofUploaded'')))"
    apply (rule exI [of _ row])
    apply (rule exI [of _ listed])
    apply (rule exI [of _ "settle w1"])
    using tr G m F2 by simp
qed

theorem C3_witness:
  "field (body (bare_request\<lparr>body := [(''items'', two_items),
              (''location'', Obj [(''lat'', Num (Fin 1)), (''lng'', Num (Fin 2))]),
              (''proofUploaded'', Bool True)]\<rparr>)) ''items'' = two_items
   \<and> fault_free empty_world
   \<and> list_all (\<lambda>t. \<bar>t_id t\<bar> < 2 ^ 53) (transactions empty_world)
   \<and> (\<exists>created listed w1 w2 row.
         post_transactions sample_runtime sample_clock
           (bare_request\<lparr>body := [(''items'', two_items),
              (''location'', Obj [(''lat'', Num (Fin 1)), (''lng'', Num (Fin 2))]),
              (''proofUploaded'', Bool True)]\<rparr>) empty_world
           = (Response 200
                (JsonBody (Obj [(''ok'', Bool True), (''transaction'', created)])) [], w1)
         \<and> get_transactions sample_runtime
             (bare_request\<lparr>body := [(''items'', two_items),
                (''location'', Obj [(''lat'', Num (Fin 1)), (''lng'', Num (Fin 2))]),
                (''proofUploaded'', Bool True)]\<rparr>) w1
             = (Response 200 (JsonBody (Arr listed)) [], w2)
         \<and> (\<exists>t \<in> set listed.
               js_get t ''id'' = js_get created ''id''
               \<and> js_get t ''total'' = Inr (Num (Fin 25))
               \<and> js_get t ''itemCount'' = Inr (Num (Fin 3))
               \<and> js_get t ''items'' = Inr two_items
               \<and> js_get t ''location''
                   = Inr (Obj [(''lat'', Num (Fin 1)), (''lng'', Num (Fin 2))])
               \<and> js_get t ''proofUploaded'' = Inr (Bool True))
         \<and> transactions w1 = [row]
         \<and> listed = [parse_row row]
         \<and> js_get (parse_row row) ''total'' = Inr (Num (Fin 25))
         \<and> js_get (parse_row row) ''itemCount'' = Inr (Num (Fin 3))
         \<and> js_get (parse_row row) ''items'' = Inr two_items
         \<and> js_get (parse_row row) ''proofUploaded'' = Inr (Bool True))"
proof -
  let ?r = "bare_request\<lparr>body := [(''items'', two_items),
              (''location'', Obj [(''lat'', Num (Fin 1)), (''lng'', Num (Fin 2))]),
              (''proofUploaded'', Bool True)]\<rparr>"
  have a: "field (body ?r) ''items'' = two_items" by (simp add: field_def)
  have b: "parseCookies sample_runtime (map_of (headers ?r) ''cookie'') = Inr Map.empty"
    by (simp add: parseCookies_def bare_request_def)
  have c: "fault_free empty_world" by (simp add: fault_free_def empty_world_def)
  have e: "\<forall>t\<in>set (transactions empty_world). \<bar>t_id t\<bar> < 2 ^ 53"
    by (simp add: empty_world_def)
  have d: "field (body ?r) ''location'' = Obj [(''lat'', Num (Fin 1)), (''lng'', Num (Fin 2))]"
    "field (body ?r) ''proofUploaded'' = Bool True"
    by (simp_all add: field_def)
  note T = C3_round_trip [OF a b c, of sample_clock]
  from T e
  obtain created listed w1 w2 t where 1:
    "post_transactions sample_runtime sample_clock ?r empty_world
       = (Response 200 (JsonBody (Obj [(''ok'', Bool True), (''transaction'', created)])) [], w1)"
    "get_transactions sample_runtime ?r w1 = (Response 200 (JsonBody (Arr listed)) [], w2)"
    "t \<in> set listed"
    "js_get t ''id'' = js_get created ''id''"
    "js_get t ''total'' = Inr (Num (Fin 25))"
    "js_get t ''itemCount'' = Inr (Num (Fin 3))"
    "js_get t ''items'' = Inr two_items"
    "js_get t ''location''
       = Inr (if truthy (field (body ?r) ''location'')
              then json_norm (field (body ?r) ''location'') else Null)"
    "js_get t ''proofUploaded'' = Inr (Bool (truthy (field (body ?r) ''proofUploaded'')))"
    by blast
  from T 1(1)
  obtain row listed' w2' where 2:
    "transactions w1 = transactions empty_world @ [row]"
    "get_transactions sample_runtime ?r w1 = (Response 200 (JsonBody (Arr listed')) [], w2')"
    "parse_row row \<in> set listed'"
    "js_get (parse_row row) ''total'' = Inr (Num (Fin 25))"
    "js_get (parse_row row) ''itemCount'' = Inr (Num (Fin 3))"
    "js_get (parse_row row) ''items'' = Inr two_items"
    "js_get (parse_row row) ''proofUploaded''
       = Inr (Bool (truthy (field (body ?r) ''proofUploaded'')))"
    by blast
  have 3: "transactions w1 = [row]" using 2(1) by (simp add: empty_world_def)
  have lu: "listing_username sample_runtime ?r = Inr Null"
    by (simp add: listing_username_def field_def header_def bare_request_def parseCookies_def
        cookie_value_def js_or_def)
  have "fst (get_transactions sample_runtime ?r w1)
          = Response 200 (JsonBody (Arr [parse_row row])) []
        \<or> fst (get_transactions sample_runtime ?r w1) = Response 200 (JsonBody (Arr [])) []"
    by (cases rule: db_call_cases [of w1 "\<lambda>w. (Inr (map parse_row (order_by_id_desc (transactions w))), w)"])
      (simp_all add: get_transactions_def lu getAllTransactions_def 3 order_by_id_desc_def
        json_def)
  with 1(2,3) have 4: "listed = [parse_row row]" by auto
  have 5: "\<exists>t \<in> set listed.
               js_get t ''id'' = js_get created ''id''
               \<and> js_get t ''total'' = Inr (Num (Fin 25))
               \<and> js_get t ''itemCount'' = Inr (Num (Fin 3))
               \<and> js_get t ''items'' = Inr two_items
               \<and> js_get t ''location''
                   = Inr (Obj [(''lat'', Num (Fin 1)), (''lng'', Num (Fin 2))])
               \<and> js_get t ''proofUploaded'' = Inr (Bool True)"
    using 1(3-9) unfolding d by (auto intro!: bexI [of _ t])
  have 6: "js_get (parse_row row) ''proofUploaded'' = Inr (Bool True)"
    using 2(7) unfolding d by simp
  have "\<exists>created listed w1 w2 row.
         post_transactions sample_runtime sample_clock ?r empty_world
           = (Response 200
                (JsonBody (Obj [(''ok'', Bool True), (''transaction'', created)])) [], w1)
         \<and> get_transactions sample_runtime ?r w1 = (Response 200 (JsonBody (Arr listed)) [], w2)
         \<and> (\<exists>t \<in> set listed.
               js_get t ''id'' = js_get created ''id''
               \<and> js_get t ''total'' = Inr (Num (Fin 25))
               \<and> js_get t ''itemCount'' = Inr (Num (Fin 3))
               \<and> js_get t ''items'' = Inr two_items
               \<and> js_get t ''location''
                   = Inr (Obj [(''lat'', Num (Fin 1)), (''lng'', Num (Fin 2))])
               \<and> js_get t ''proofUploaded'' = Inr (Bool True))
         \<and> transactions w1 = [row]
         \<and> listed = [parse_row row]
         \<and> js_get (parse_row row) ''total'' = Inr (Num (Fin 25))
         \<and> js_get (parse_row row) ''itemCount'' = Inr (Num (Fin 3))
         \<and> js_get (parse_row row) ''items'' = Inr two_items
         \<and> js_get (parse_row row) ''proofUploaded'' = Inr (Bool True)"
    apply (rule exI [of _ created])
    apply (rule exI [of _ listed])
    apply (rule exI [of _ w1])
    apply (rule exI [of _ w2])
    apply (rule exI [of _ row])
    using 1(1,2) 5 3 4 2(4,5,6) 6 by (intro conjI)
  with a c e show ?thesis by (simp add: list_all_iff)
qed

section \<open>The acting username, route by route\<close>

















end
